theory Spec2Isabelle
  imports Complex_Main
begin

section \<open>JavaScript strings\<close>

text \<open>
  A JavaScript string is a sequence of UTF-16 code units; \<open>length\<close>, \<open>startsWith\<close>,
  \<open>includes\<close>, \<open>trim\<close> and the regular expressions of the service all work on code units.
  Here a string is a \<^typ>\<open>string\<close> and a \<^typ>\<open>char\<close> stands for one code unit in the range
  0..255; texts with other code units are outside this development.
\<close>

definition startsWith :: "string \<Rightarrow> string \<Rightarrow> bool" where
  "startsWith s p = (take (length p) s = p)"

definition endsWith :: "string \<Rightarrow> string \<Rightarrow> bool" where
  "endsWith s p = (length p \<le> length s \<and> drop (length s - length p) s = p)"

text \<open>\<open>hay.includes(needle)\<close>: the needle occurs as a contiguous run of the text.\<close>

fun includes_str :: "string \<Rightarrow> string \<Rightarrow> bool" where
  "includes_str [] p = (p = [])"
| "includes_str (c # cs) p = (startsWith (c # cs) p \<or> includes_str cs p)"

declare includes_str.simps [simp del]

text \<open>\<open>xs.join(sep)\<close> on an array of strings.\<close>

fun join :: "string \<Rightarrow> string list \<Rightarrow> string" where
  "join sep [] = []"
| "join sep [x] = x"
| "join sep (x # y # ys) = x @ sep @ join sep (y # ys)"

text \<open>
  \<open>String.prototype.trim\<close> removes WhiteSpace and LineTerminator code units from both ends;
  below 256 these are TAB, LF, VT, FF, CR, SPACE and NBSP.
\<close>

definition isWhiteSpace :: "char \<Rightarrow> bool" where
  "isWhiteSpace c = (c \<in> {CHR 0x09, CHR 0x0A, CHR 0x0B, CHR 0x0C, CHR 0x0D, CHR 0x20, CHR 0xA0})"

definition trim :: "string \<Rightarrow> string" where
  "trim s = rev (dropWhile isWhiteSpace (rev (dropWhile isWhiteSpace s)))"

text \<open>
  Template interpolation of a number, \<open>`${n}`\<close>. The request schema admits only positive
  integers here; an integer below \<open>10^21\<close> is printed in decimal. From \<open>10^21\<close> on
  JavaScript prints exponent notation, which is not modelled: there the digits printed
  here are not those of the program.
\<close>

definition digit_char :: "nat \<Rightarrow> char" where
  "digit_char d = ''0123456789'' ! (d mod 10)"

fun Number_toString :: "nat \<Rightarrow> string" where
  "Number_toString n =
     (if n < 10 then [digit_char n] else Number_toString (n div 10) @ [digit_char (n mod 10)])"

declare Number_toString.simps [simp del]

section \<open>The Gemini client: \<open>initializeGemini\<close>\<close>

text \<open>
  The module keeps two variables, \<open>genAI\<close> and \<open>model\<close>, both \<open>null\<close> at load time.
  Objects have identity, so they live in a store: a reference is the index of the object
  in the list of all objects constructed so far, and \<open>new\<close> appends to that list.
  \<open>None\<close> is \<open>null\<close>.
\<close>

record generation_config =
  temperature :: rat
  topK :: nat
  topP :: rat
  maxOutputTokens :: nat

datatype js_object =
    GoogleGenerativeAI string
  | GenerativeModel nat string generation_config

record module_state =
  genAI :: "nat option"
  model :: "nat option"
  store :: "js_object list"

definition module_init :: module_state where
  "module_init = \<lparr>genAI = None, model = None, store = []\<rparr>"

text \<open>Exceptions are values: an \<open>Error\<close> with its message, or a \<open>ZodError\<close>.\<close>

datatype js_error = Error string | ZodError

definition new_object :: "js_object \<Rightarrow> module_state \<Rightarrow> nat \<times> module_state" where
  "new_object obj s = (length (store s), s\<lparr>store := store s @ [obj]\<rparr>)"

text \<open>
  The argument \<open>key\<close> is \<open>process.env.GEMINI_API_KEY\<close>: \<open>None\<close> when the variable is
  unset. An unset or empty variable is falsy.
\<close>

definition initializeGemini ::
  "string option \<Rightarrow> module_state \<Rightarrow> js_error + (nat option \<times> module_state)" where
  "initializeGemini key s =
     (case key of
        None \<Rightarrow> Inl (Error ''GEMINI_API_KEY environment variable is required'')
      | Some k \<Rightarrow>
          if k = [] then Inl (Error ''GEMINI_API_KEY environment variable is required'')
          else if genAI s = None then
            (let (c, s1) = new_object (GoogleGenerativeAI k) s;
                 s2 = s1\<lparr>genAI := Some c\<rparr>;
                 (m, s3) = new_object
                   (GenerativeModel c ''gemini-1.5-pro''
                      \<lparr>temperature = 7 / 10, topK = 40, topP = 95 / 100, maxOutputTokens = 8192\<rparr>) s2;
                 s4 = s3\<lparr>model := Some m\<rparr>
             in Inr (model s4, s4))
          else Inr (model s, s))"

text \<open>
  A sequence of calls, one per entry of \<open>keys\<close> (the value of the environment variable at
  the time of that call); the results are collected in order.
\<close>

fun initializeGemini_calls ::
  "string option list \<Rightarrow> module_state \<Rightarrow> (js_error + nat option) list \<times> module_state" where
  "initializeGemini_calls [] s = ([], s)"
| "initializeGemini_calls (key # keys) s =
     (case initializeGemini key s of
        Inl e \<Rightarrow> (let (rs, s') = initializeGemini_calls keys s in (Inl e # rs, s'))
      | Inr (m, s1) \<Rightarrow> (let (rs, s') = initializeGemini_calls keys s1 in (Inr m # rs, s')))"

section \<open>The prompt: \<open>buildRecipePrompt\<close>\<close>

text \<open>
  The request body after \<open>validate(recipeGenerationSchema)\<close>. \<open>None\<close> is \<open>undefined\<close>:
  destructuring replaces it by the declared default.
\<close>

record gen_params =
  dietaryPreferences :: "string list option"
  allergies :: "string list option"
  nutritionalFocus :: "string option"
  cuisineType :: "string option"
  maxPrepTime :: "nat option"
  maxCookTime :: "nat option"
  maxCalories :: "nat option"
  servings :: "nat option"
  difficulty :: "string option"
  availableIngredients :: "string list option"
  excludeIngredients :: "string list option"
  mealType :: "string option"

definition or_default :: "'a \<Rightarrow> 'a option \<Rightarrow> 'a" where
  "or_default d x = (case x of None \<Rightarrow> d | Some v \<Rightarrow> v)"

text \<open>Truthiness of a string: it is not empty.\<close>

definition truthy_string :: "string \<Rightarrow> bool" where
  "truthy_string s = (s \<noteq> [])"

text \<open>
  The \<open>constraints\<close> array: each \<open>if (...) constraints.push(...)\<close> in source order.
  A number is truthy when it is defined and not zero.
\<close>

definition push_if :: "bool \<Rightarrow> string \<Rightarrow> string list \<Rightarrow> string list" where
  "push_if b line cs = (if b then cs @ [line] else cs)"

definition push_number :: "string \<Rightarrow> nat option \<Rightarrow> string \<Rightarrow> string list \<Rightarrow> string list" where
  "push_number lead n rest cs =
     (case n of
        None \<Rightarrow> cs
      | Some k \<Rightarrow> if k \<noteq> 0 then cs @ [lead @ Number_toString k @ rest] else cs)"

definition constraints :: "gen_params \<Rightarrow> string list" where
  "constraints p =
     (let dietaryPreferences = or_default [] (dietaryPreferences p);
          allergies = or_default [] (allergies p);
          nutritionalFocus = or_default [] (nutritionalFocus p);
          cuisineType = or_default [] (cuisineType p);
          availableIngredients = or_default [] (availableIngredients p);
          excludeIngredients = or_default [] (excludeIngredients p);
          c0 = [];
          c1 = push_if (length dietaryPreferences > 0)
                 (''Dietary preferences: '' @ join '', '' dietaryPreferences) c0;
          c2 = push_if (length allergies > 0)
                 (''STRICT ALLERGIES (must avoid): '' @ join '', '' allergies) c1;
          c3 = push_if (truthy_string nutritionalFocus)
                 (''Nutritional focus: '' @ nutritionalFocus) c2;
          c4 = push_if (truthy_string cuisineType)
                 (''Cuisine type: '' @ cuisineType) c3;
          c5 = push_number ''Maximum prep time: '' (maxPrepTime p) '' minutes'' c4;
          c6 = push_number ''Maximum cook time: '' (maxCookTime p) '' minutes'' c5;
          c7 = push_number ''Maximum calories per serving: '' (maxCalories p) [] c6;
          c8 = push_if (length availableIngredients > 0)
                 (''Prefer using these ingredients: '' @ join '', '' availableIngredients) c7;
          c9 = push_if (length excludeIngredients > 0)
                 (''Must NOT use: '' @ join '', '' excludeIngredients) c8
      in c9)"

definition prompt_preamble :: string where
  \<open>prompt_preamble =
     ''You are a professional chef and certified nutritionist. Generate an ORIGINAL, creative, and realistic recipe.\<newline>'' @
     ''\<newline>'' @
     ''REQUIREMENTS:\<newline>'' @
     ''- Servings: ''\<close>

definition prompt_rules :: string where
  \<open>prompt_rules =
     ''\<newline>'' @
     ''\<newline>'' @
     ''CRITICAL RULES:\<newline>'' @
     ''1. Create an ORIGINAL recipe, not a copy of existing recipes\<newline>'' @
     ''2. Ensure all ingredients are safe and realistic\<newline>'' @
     ''3. Respect ALL dietary restrictions and allergies\<newline>'' @
     ''4. Provide accurate nutritional information\<newline>'' @
     ''5. Include practical cooking instructions\<newline>'' @
     ''6. Time estimates must be realistic\<newline>'' @
     ''\<newline>'' @
     ''OUTPUT FORMAT:\<newline>'' @
     ''Return ONLY valid JSON matching this EXACT structure (no markdown, no explanations):\<newline>'' @
     ''\<newline>'' @
     ''{\<newline>'' @
     ''  "title": "Creative Recipe Name",\<newline>'' @
     ''  "subtitle": "Brief catchy description",\<newline>'' @
     ''  "description": "Detailed 2-3 sentence description highlighting key flavors and appeal",\<newline>'' @
     ''  "prepTime": "XX min",\<newline>'' @
     ''  "cookTime": "XX min",\<newline>'' @
     ''  "servings": ''\<close>

definition prompt_schema_difficulty :: string where
  \<open>prompt_schema_difficulty =
     '',\<newline>'' @
     ''  "calories": number (per serving),\<newline>'' @
     ''  "difficulty": "''\<close>

definition prompt_schema_cuisine :: string where
  \<open>prompt_schema_cuisine =
     ''",\<newline>'' @
     ''  "tags": ["tag1", "tag2", "tag3"],\<newline>'' @
     ''  "cuisine": "''\<close>

definition prompt_schema_rest :: string where
  \<open>prompt_schema_rest =
     ''",\<newline>'' @
     ''  "imageUrl": "",\<newline>'' @
     ''  "nutrition": {\<newline>'' @
     ''    "protein": "XXg",\<newline>'' @
     ''    "carbs": "XXg",\<newline>'' @
     ''    "fat": "XXg",\<newline>'' @
     ''    "fiber": "XXg",\<newline>'' @
     ''    "sodium": "XXXmg",\<newline>'' @
     ''    "sugar": "XXg"\<newline>'' @
     ''  },\<newline>'' @
     ''  "ingredients": [\<newline>'' @
     ''    { "amount": "1 cup", "item": "ingredient name" }\<newline>'' @
     ''  ],\<newline>'' @
     ''  "dressingIngredients": [],\<newline>'' @
     ''  "steps": [\<newline>'' @
     ''    {\<newline>'' @
     ''      "number": 1,\<newline>'' @
     ''      "title": "Step Title",\<newline>'' @
     ''      "description": "Detailed instructions for this step",\<newline>'' @
     ''      "tip": "Optional helpful tip",\<newline>'' @
     ''      "duration": "X min"\<newline>'' @
     ''    }\<newline>'' @
     ''  ],\<newline>'' @
     ''  "shoppingList": [\<newline>'' @
     ''    {\<newline>'' @
     ''      "category": "Produce",\<newline>'' @
     ''      "items": ["item1", "item2"]\<newline>'' @
     ''    },\<newline>'' @
     ''    {\<newline>'' @
     ''      "category": "Protein",\<newline>'' @
     ''      "items": ["item1"]\<newline>'' @
     ''    },\<newline>'' @
     ''    {\<newline>'' @
     ''      "category": "Pantry",\<newline>'' @
     ''      "items": ["item1", "item2"]\<newline>'' @
     ''    }\<newline>'' @
     ''  ],\<newline>'' @
     ''  "youtubeId": "",\<newline>'' @
     ''  "videoUrl": "",\<newline>'' @
     ''  "isGenerated": true\<newline>'' @
     ''}\<newline>'' @
     ''\<newline>'' @
     ''Generate the recipe now:''\<close>

definition buildRecipePrompt :: "gen_params \<Rightarrow> string" where
  \<open>buildRecipePrompt p =
     (let nutritionalFocus = or_default [] (nutritionalFocus p);
          cuisineType = or_default [] (cuisineType p);
          servings = or_default 4 (servings p);
          difficulty = or_default ''Medium'' (difficulty p);
          mealType = or_default [] (mealType p)
      in
        prompt_preamble @ Number_toString servings @
        ''\<newline>- Difficulty level: '' @ difficulty @
        ''\<newline>'' @
        (if truthy_string mealType then ''- Meal type: '' @ mealType else []) @
        ''\<newline>'' @
        join ''\<newline>'' (map (\<lambda>c. ''- '' @ c) (constraints p)) @
        prompt_rules @ Number_toString servings @
        prompt_schema_difficulty @ difficulty @
        prompt_schema_cuisine @ (if truthy_string cuisineType then cuisineType else ''International'') @
        prompt_schema_rest)\<close>

section \<open>JavaScript values\<close>

text \<open>
  The values that flow through the service: what \<open>JSON.parse\<close> and the body parser
  produce, plus \<open>undefined\<close>, which is what reading a missing property yields. A number is
  a rational; the rounding of IEEE doubles is not modelled. An object is the list of its
  properties in insertion order.
\<close>

datatype jsval =
    JUndefined
  | JNull
  | JBool bool
  | JNum rat
  | JStr string
  | JArr "jsval list"
  | JObj "(string \<times> jsval) list"

text \<open>\<open>props[k]\<close>: the value of property \<open>k\<close>, or \<open>undefined\<close>.\<close>

fun obj_get :: "(string \<times> jsval) list \<Rightarrow> string \<Rightarrow> jsval" where
  "obj_get [] k = JUndefined"
| "obj_get ((k', v) # ps) k = (if k' = k then v else obj_get ps k)"

text \<open>\<open>k in props\<close>.\<close>

definition has_key :: "(string \<times> jsval) list \<Rightarrow> string \<Rightarrow> bool" where
  "has_key ps k = (k \<in> fst ` set ps)"

text \<open>
  \<open>props[k] = v\<close>: an existing property keeps its place, a new one goes last.
\<close>

fun obj_set :: "string \<Rightarrow> jsval \<Rightarrow> (string \<times> jsval) list \<Rightarrow> (string \<times> jsval) list" where
  "obj_set k v [] = [(k, v)]"
| "obj_set k v ((k', v') # ps) = (if k' = k then (k, v) # ps else (k', v') # obj_set k v ps)"

text \<open>Property access \<open>x.k\<close> on any value; on a non-object it is \<open>undefined\<close> here.\<close>

definition field :: "jsval \<Rightarrow> string \<Rightarrow> jsval" where
  "field x k = (case x of JObj ps \<Rightarrow> obj_get ps k | _ \<Rightarrow> JUndefined)"

section \<open>Zod schemas\<close>

text \<open>
  A schema is its \<open>parse\<close> function: it takes the input value (\<open>undefined\<close> for a missing
  property) and either returns the output value or throws a \<open>ZodError\<close>. The list of
  issues inside the error is not modelled, so \<open>Invalid\<close> stands for any \<open>ZodError\<close>.
\<close>

datatype 'a parsed = Invalid | Valid 'a

type_synonym zod = "jsval \<Rightarrow> jsval parsed"

text \<open>
  The checks chained on \<open>z.string()\<close>, \<open>z.number()\<close> and \<open>z.array()\<close> run in the order
  written, each on the data the previous one left (\<open>trim\<close> changes it).
\<close>

fun run_checks :: "('a \<Rightarrow> 'a parsed) list \<Rightarrow> 'a \<Rightarrow> 'a parsed" where
  "run_checks [] x = Valid x"
| "run_checks (c # cs) x = (case c x of Invalid \<Rightarrow> Invalid | Valid y \<Rightarrow> run_checks cs y)"

definition check :: "('a \<Rightarrow> bool) \<Rightarrow> 'a \<Rightarrow> 'a parsed" where
  "check ok x = (if ok x then Valid x else Invalid)"

text \<open>\<open>z.string()\<close> with \<open>.min(n)\<close>, \<open>.max(n)\<close>, \<open>.trim()\<close>, \<open>.url()\<close>.\<close>

definition z_string :: "(string \<Rightarrow> string parsed) list \<Rightarrow> zod" where
  "z_string checks x =
     (case x of
        JStr s \<Rightarrow> (case run_checks checks s of Invalid \<Rightarrow> Invalid | Valid s' \<Rightarrow> Valid (JStr s'))
      | _ \<Rightarrow> Invalid)"

definition min_str :: "nat \<Rightarrow> string \<Rightarrow> string parsed" where
  "min_str n = check (\<lambda>s. n \<le> length s)"

definition max_str :: "nat \<Rightarrow> string \<Rightarrow> string parsed" where
  "max_str n = check (\<lambda>s. length s \<le> n)"

definition trim_str :: "string \<Rightarrow> string parsed" where
  "trim_str s = Valid (trim s)"

text \<open>
  \<open>.url()\<close> accepts what the platform's URL parser accepts; that parser is not part of
  the repository and is a parameter, \<open>isURL\<close>.
\<close>

definition url_str :: "(string \<Rightarrow> bool) \<Rightarrow> string \<Rightarrow> string parsed" where
  "url_str isURL = check isURL"

text \<open>\<open>z.number()\<close> with \<open>.int()\<close>, \<open>.min(n)\<close>, \<open>.max(n)\<close>, \<open>.positive()\<close>.\<close>

definition z_number :: "(rat \<Rightarrow> rat parsed) list \<Rightarrow> zod" where
  "z_number checks x =
     (case x of
        JNum q \<Rightarrow> (case run_checks checks q of Invalid \<Rightarrow> Invalid | Valid q' \<Rightarrow> Valid (JNum q'))
      | _ \<Rightarrow> Invalid)"

definition isInteger :: "rat \<Rightarrow> bool" where
  "isInteger q = (of_int \<lfloor>q\<rfloor> = q)"

definition int_num :: "rat \<Rightarrow> rat parsed" where
  "int_num = check isInteger"

definition min_num :: "rat \<Rightarrow> rat \<Rightarrow> rat parsed" where
  "min_num n = check (\<lambda>q. n \<le> q)"

definition max_num :: "rat \<Rightarrow> rat \<Rightarrow> rat parsed" where
  "max_num n = check (\<lambda>q. q \<le> n)"

definition positive_num :: "rat \<Rightarrow> rat parsed" where
  "positive_num = check (\<lambda>q. 0 < q)"

definition z_boolean :: zod where
  "z_boolean x = (case x of JBool b \<Rightarrow> Valid (JBool b) | _ \<Rightarrow> Invalid)"

definition z_enum :: "string list \<Rightarrow> zod" where
  "z_enum values x =
     (case x of JStr s \<Rightarrow> (if s \<in> set values then Valid (JStr s) else Invalid) | _ \<Rightarrow> Invalid)"

definition z_literal :: "jsval \<Rightarrow> zod" where
  "z_literal v x = (if x = v then Valid x else Invalid)"

definition z_any :: zod where
  "z_any x = Valid x"

text \<open>\<open>.optional()\<close>, \<open>.default(d)\<close> and \<open>a.or(b)\<close> wrap a schema.\<close>

definition z_optional :: "zod \<Rightarrow> zod" where
  "z_optional inner x = (if x = JUndefined then Valid JUndefined else inner x)"

definition z_default :: "jsval \<Rightarrow> zod \<Rightarrow> zod" where
  "z_default d inner x = (if x = JUndefined then inner d else inner x)"

definition z_or :: "zod \<Rightarrow> zod \<Rightarrow> zod" where
  "z_or a b x = (case a x of Valid y \<Rightarrow> Valid y | Invalid \<Rightarrow> b x)"

text \<open>\<open>z.array(element)\<close> with \<open>.min(n)\<close> on the number of items.\<close>

fun all_valid :: "'a parsed list \<Rightarrow> 'a list parsed" where
  "all_valid [] = Valid []"
| "all_valid (r # rs) =
     (case r of
        Invalid \<Rightarrow> Invalid
      | Valid y \<Rightarrow> (case all_valid rs of Invalid \<Rightarrow> Invalid | Valid ys \<Rightarrow> Valid (y # ys)))"

definition min_items :: "nat \<Rightarrow> jsval list \<Rightarrow> jsval list parsed" where
  "min_items n = check (\<lambda>xs. n \<le> length xs)"

definition z_array :: "zod \<Rightarrow> (jsval list \<Rightarrow> jsval list parsed) list \<Rightarrow> zod" where
  "z_array element checks x =
     (case x of
        JArr xs \<Rightarrow>
          (case run_checks checks xs of
             Invalid \<Rightarrow> Invalid
           | Valid _ \<Rightarrow>
               (case all_valid (map element xs) of
                  Invalid \<Rightarrow> Invalid
                | Valid ys \<Rightarrow> Valid (JArr ys)))
      | _ \<Rightarrow> Invalid)"

text \<open>
  \<open>z.object(shape)\<close>: the input must be an object; every key of the shape is parsed with
  its schema on \<open>data[key]\<close>; keys outside the shape are stripped. The output has the keys
  of the shape in the shape's order, a key being left out when its parsed value is
  \<open>undefined\<close> and the key is not in the input.
\<close>

fun parse_shape ::
  "(string \<times> zod) list \<Rightarrow> (string \<times> jsval) list \<Rightarrow> (string \<times> jsval) list parsed" where
  "parse_shape [] data = Valid []"
| "parse_shape ((k, p) # shape) data =
     (case p (obj_get data k) of
        Invalid \<Rightarrow> Invalid
      | Valid v \<Rightarrow>
          (case parse_shape shape data of
             Invalid \<Rightarrow> Invalid
           | Valid out \<Rightarrow> Valid (if v \<noteq> JUndefined \<or> has_key data k then (k, v) # out else out)))"

definition z_object :: "(string \<times> zod) list \<Rightarrow> zod" where
  "z_object shape x =
     (case x of
        JObj data \<Rightarrow> (case parse_shape shape data of Invalid \<Rightarrow> Invalid | Valid out \<Rightarrow> Valid (JObj out))
      | _ \<Rightarrow> Invalid)"

definition accepts :: "zod \<Rightarrow> jsval \<Rightarrow> bool" where
  "accepts p x = (p x \<noteq> Invalid)"

section \<open>The schema of AI output: \<open>validators/aiResponseSchema.js\<close>\<close>

definition nutritionShape_aiResponse :: "(string \<times> zod) list" where
  "nutritionShape_aiResponse =
     [(''protein'', z_string [min_str 1]),
      (''carbs'', z_string [min_str 1]),
      (''fat'', z_string [min_str 1]),
      (''fiber'', z_string [min_str 1]),
      (''sodium'', z_default (JStr ''0mg'') (z_optional (z_string []))),
      (''sugar'', z_default (JStr ''0g'') (z_optional (z_string []))),
      (''saturatedFat'', z_optional (z_string [])),
      (''cholesterol'', z_optional (z_string []))]"

definition nutritionSchema_aiResponse :: zod where
  "nutritionSchema_aiResponse = z_object nutritionShape_aiResponse"

definition ingredientSchema_aiResponse :: zod where
  "ingredientSchema_aiResponse =
     z_object
       [(''amount'', z_string [min_str 1]),
        (''item'', z_string [min_str 1]),
        (''id'', z_optional (z_string []))]"

definition recipeStepSchema_aiResponse :: zod where
  "recipeStepSchema_aiResponse =
     z_object
       [(''number'', z_number [int_num, positive_num]),
        (''title'', z_string [min_str 1]),
        (''description'', z_string [min_str 1]),
        (''tip'', z_optional (z_string [])),
        (''duration'', z_optional (z_string [])),
        (''imageUrl'', z_optional (z_string []))]"

definition shoppingCategorySchema_aiResponse :: zod where
  "shoppingCategorySchema_aiResponse =
     z_object
       [(''category'', z_string [min_str 1]),
        (''items'', z_array (z_string []) [min_items 1])]"

definition aiRecipeShape :: "(string \<times> zod) list" where
  "aiRecipeShape =
     [(''title'', z_string [min_str 3, max_str 200]),
      (''subtitle'', z_default (JStr '''') (z_optional (z_string []))),
      (''description'', z_string [min_str 10, max_str 2000]),
      (''prepTime'', z_string [min_str 1]),
      (''cookTime'', z_string [min_str 1]),
      (''servings'', z_number [int_num, min_num 1, max_num 100]),
      (''calories'', z_number [int_num, min_num 0, max_num 5000]),
      (''difficulty'', z_enum [''Easy'', ''Medium'', ''Hard'']),
      (''tags'', z_default (JArr []) (z_array (z_string []) [])),
      (''cuisine'', z_default (JStr ''International'') (z_string [])),
      (''imageUrl'', z_default (JStr '''') (z_string [])),
      (''nutrition'', nutritionSchema_aiResponse),
      (''ingredients'', z_array ingredientSchema_aiResponse [min_items 1]),
      (''dressingIngredients'',
         z_default (JArr []) (z_optional (z_array ingredientSchema_aiResponse []))),
      (''steps'', z_array recipeStepSchema_aiResponse [min_items 1]),
      (''shoppingList'', z_default (JArr []) (z_array shoppingCategorySchema_aiResponse [])),
      (''youtubeId'', z_default (JStr '''') (z_optional (z_string []))),
      (''videoUrl'', z_default (JStr '''') (z_optional (z_string []))),
      (''isGenerated'', z_default (JBool True) z_boolean)]"

definition aiRecipeSchema :: zod where
  "aiRecipeSchema = z_object aiRecipeShape"

text \<open>\<open>validateAIRecipe(data)\<close> returns \<open>aiRecipeSchema.parse(data)\<close> or throws.\<close>

definition validateAIRecipe :: "jsval \<Rightarrow> js_error + jsval" where
  "validateAIRecipe data =
     (case aiRecipeSchema data of Invalid \<Rightarrow> Inl ZodError | Valid recipe \<Rightarrow> Inr recipe)"

section \<open>The schema of authored recipes: \<open>validators/schemas.js\<close>\<close>

definition nutritionSchema_schemas :: zod where
  "nutritionSchema_schemas =
     z_object
       [(''protein'', z_string [min_str 1]),
        (''carbs'', z_string [min_str 1]),
        (''fat'', z_string [min_str 1]),
        (''fiber'', z_string [min_str 1]),
        (''sodium'', z_optional (z_string [])),
        (''sugar'', z_optional (z_string [])),
        (''saturatedFat'', z_optional (z_string [])),
        (''cholesterol'', z_optional (z_string []))]"

definition ingredientSchema_schemas :: zod where
  "ingredientSchema_schemas =
     z_object
       [(''amount'', z_string [min_str 1]),
        (''item'', z_string [min_str 1]),
        (''id'', z_optional (z_string []))]"

definition recipeStepSchema_schemas :: "(string \<Rightarrow> bool) \<Rightarrow> zod" where
  "recipeStepSchema_schemas isURL =
     z_object
       [(''number'', z_number [int_num, positive_num]),
        (''title'', z_string [min_str 1]),
        (''description'', z_string [min_str 1]),
        (''tip'', z_optional (z_string [])),
        (''duration'', z_optional (z_string [])),
        (''imageUrl'', z_or (z_optional (z_string [url_str isURL])) (z_literal (JStr '''')))]"

definition shoppingCategorySchema_schemas :: zod where
  "shoppingCategorySchema_schemas =
     z_object
       [(''category'', z_string [min_str 1]),
        (''items'', z_array (z_string []) [min_items 1])]"

definition createRecipeShape :: "(string \<Rightarrow> bool) \<Rightarrow> (string \<times> zod) list" where
  "createRecipeShape isURL =
     [(''title'', z_string [min_str 3, max_str 200, trim_str]),
      (''subtitle'', z_optional (z_string [trim_str])),
      (''description'', z_string [min_str 10, max_str 2000]),
      (''prepTime'', z_string [min_str 1]),
      (''cookTime'', z_string [min_str 1]),
      (''servings'', z_number [int_num, min_num 1, max_num 100]),
      (''calories'', z_number [int_num, min_num 0, max_num 5000]),
      (''difficulty'', z_enum [''Easy'', ''Medium'', ''Hard'']),
      (''tags'', z_default (JArr []) (z_array (z_string []) [])),
      (''cuisine'', z_optional (z_string [])),
      (''imageUrl'', z_or (z_optional (z_string [url_str isURL])) (z_literal (JStr ''''))),
      (''nutrition'', nutritionSchema_schemas),
      (''ingredients'', z_array ingredientSchema_schemas [min_items 1]),
      (''dressingIngredients'', z_optional (z_array ingredientSchema_schemas [])),
      (''steps'', z_array (recipeStepSchema_schemas isURL) [min_items 1]),
      (''shoppingList'', z_default (JArr []) (z_array shoppingCategorySchema_schemas [])),
      (''youtubeId'', z_optional (z_string [])),
      (''videoUrl'', z_or (z_optional (z_string [url_str isURL])) (z_literal (JStr ''''))),
      (''isGenerated'', z_default (JBool False) z_boolean),
      (''generationParams'', z_optional z_any)]"

definition createRecipeSchema :: "(string \<Rightarrow> bool) \<Rightarrow> zod" where
  "createRecipeSchema isURL = z_object (createRecipeShape isURL)"

text \<open>
  The schema \<open>z.string().url().optional().or(z.literal(""))\<close> that \<open>schemas.js\<close> writes for
  \<open>imageUrl\<close>, for \<open>videoUrl\<close> and for the \<open>imageUrl\<close> of a step: absent, a URL, or empty.
\<close>

definition url_or_empty :: "(string \<Rightarrow> bool) \<Rightarrow> zod" where
  "url_or_empty isURL = z_or (z_optional (z_string [url_str isURL])) (z_literal (JStr []))"

section \<open>\<open>JSON.parse\<close>\<close>

text \<open>
  \<open>JSON.parse\<close> belongs to the language, not to the repository. It is modelled after the
  JSON grammar of ECMA-404: a text is split into tokens, and the tokens are read by a
  machine with a stack of the arrays and objects that are still open. \<open>None\<close> stands for
  the \<open>SyntaxError\<close> it throws.

  Limits of the model. A number is the exact rational its literal denotes, where
  JavaScript rounds to an IEEE double: \<open>1e400\<close> is \<open>Infinity\<close> and
  \<open>4.0000000000000001\<close> is \<open>4\<close> there. An escape \<open>\uXXXX\<close> above \<open>0x00FF\<close>, which has
  no image among the code units modelled here, is read as the code unit \<open>0xFF\<close>.
  Properties stay in the order of the text, where JavaScript lists those named like an
  array index first. None of this changes whether a text parses; on a literal that is not
  exactly a double the value, and with it a later check of the number, can differ.
\<close>

datatype token =
    TLBrace | TRBrace | TLBracket | TRBracket | TColon | TComma
  | TString string | TNumber rat | TTrue | TFalse | TNull

definition isJsonSpace :: "char \<Rightarrow> bool" where
  "isJsonSpace c = (c \<in> {CHR 0x20, CHR 0x09, CHR 0x0A, CHR 0x0D})"

definition isDigit :: "char \<Rightarrow> bool" where
  "isDigit c = (c \<in> set ''0123456789'')"

definition digit_val :: "char \<Rightarrow> nat" where
  "digit_val c = of_char c - 48"

definition hex_val :: "char \<Rightarrow> nat option" where
  "hex_val c =
     (if isDigit c then Some (digit_val c)
      else if c \<in> set ''abcdef'' then Some (of_char c - 87)
      else if c \<in> set ''ABCDEF'' then Some (of_char c - 55)
      else None)"

text \<open>The code unit of \<open>\uXXXX\<close>, given the four characters after \<open>\u\<close>.\<close>

definition unicode_escape :: "char \<Rightarrow> char \<Rightarrow> char \<Rightarrow> char \<Rightarrow> char option" where
  "unicode_escape a b c d =
     (case (hex_val a, hex_val b, hex_val c, hex_val d) of
        (Some h3, Some h2, Some h1, Some h0) \<Rightarrow>
          (if h3 = 0 \<and> h2 = 0 then Some (char_of (16 * h1 + h0)) else Some (CHR 0xFF))
      | _ \<Rightarrow> None)"

text \<open>The character of a two-character escape \<open>\c\<close>.\<close>

definition simple_escape :: "char \<Rightarrow> char option" where
  "simple_escape c =
     (if c = CHR 0x22 then Some (CHR 0x22)
      else if c = CHR 0x5C then Some (CHR 0x5C)
      else if c = CHR ''/'' then Some (CHR ''/'')
      else if c = CHR ''b'' then Some (CHR 0x08)
      else if c = CHR ''f'' then Some (CHR 0x0C)
      else if c = CHR ''n'' then Some (CHR 0x0A)
      else if c = CHR ''r'' then Some (CHR 0x0D)
      else if c = CHR ''t'' then Some (CHR 0x09)
      else None)"

definition cons_char :: "char \<Rightarrow> (string \<times> string) option \<Rightarrow> (string \<times> string) option" where
  "cons_char c r = (case r of None \<Rightarrow> None | Some (s, rest) \<Rightarrow> Some (c # s, rest))"

text \<open>
  The characters of a string literal after its opening quote, up to the closing quote:
  the decoded string and the text that follows. Control characters below \<open>0x20\<close> must be
  escaped.
\<close>

fun scan_string :: "string \<Rightarrow> (string \<times> string) option" where
  "scan_string [] = None"
| "scan_string (c # cs) =
     (if c = CHR 0x22 then Some ([], cs)
      else if c = CHR 0x5C then
        (case cs of
           [] \<Rightarrow> None
         | e # cs' \<Rightarrow>
             if e = CHR ''u'' then
               (case cs' of
                  h3 # h2 # h1 # h0 # rest \<Rightarrow>
                    (case unicode_escape h3 h2 h1 h0 of
                       None \<Rightarrow> None
                     | Some u \<Rightarrow> cons_char u (scan_string rest))
                | _ \<Rightarrow> None)
             else
               (case simple_escape e of
                  None \<Rightarrow> None
                | Some u \<Rightarrow> cons_char u (scan_string cs')))
      else if (of_char c :: nat) < 32 then None
      else cons_char c (scan_string cs))"

definition digits_val :: "string \<Rightarrow> nat" where
  "digits_val ds = foldl (\<lambda>a d. 10 * a + digit_val d) 0 ds"

text \<open>
  A number literal: an optional minus, an integer part without a leading zero, an optional
  fraction, an optional exponent. Each scanner returns what it read and the text that
  follows.
\<close>

definition scan_int :: "string \<Rightarrow> (nat \<times> string) option" where
  "scan_int s =
     (let ip = takeWhile isDigit s
      in if ip = [] \<or> (startsWith ip ''0'' \<and> length ip > 1) then None
         else Some (digits_val ip, dropWhile isDigit s))"

definition scan_frac :: "string \<Rightarrow> (rat \<times> string) option" where
  "scan_frac s =
     (if startsWith s ''.'' then
        (let fp = takeWhile isDigit (drop 1 s)
         in if fp = [] then None
            else Some (of_nat (digits_val fp) / 10 ^ length fp, dropWhile isDigit (drop 1 s)))
      else Some (0, s))"

definition scan_exp :: "string \<Rightarrow> (int \<times> string) option" where
  "scan_exp s =
     (if startsWith s ''e'' \<or> startsWith s ''E'' then
        (let s1 = drop 1 s;
             negative = startsWith s1 ''-'';
             s2 = (if negative \<or> startsWith s1 ''+'' then drop 1 s1 else s1);
             ep = takeWhile isDigit s2
         in if ep = [] then None
            else Some (if negative then - int (digits_val ep) else int (digits_val ep),
                       dropWhile isDigit s2))
      else Some (0, s))"

definition scale10 :: "rat \<Rightarrow> int \<Rightarrow> rat" where
  "scale10 q e = (if e < 0 then q / 10 ^ nat (- e) else q * 10 ^ nat e)"

definition scan_number :: "string \<Rightarrow> (rat \<times> string) option" where
  "scan_number s =
     (let negative = startsWith s ''-'';
          s1 = (if negative then drop 1 s else s)
      in case scan_int s1 of
           None \<Rightarrow> None
         | Some (i, s2) \<Rightarrow>
             (case scan_frac s2 of
                None \<Rightarrow> None
              | Some (f, s3) \<Rightarrow>
                  (case scan_exp s3 of
                     None \<Rightarrow> None
                   | Some (e, s4) \<Rightarrow>
                       (let q = scale10 (of_nat i + f) e
                        in Some (if negative then - q else q, s4)))))"

definition cons_token :: "token \<Rightarrow> token list option \<Rightarrow> token list option" where
  "cons_token t r = (case r of None \<Rightarrow> None | Some ts \<Rightarrow> Some (t # ts))"

text \<open>Every scanner consumes input, which is what makes the tokenizer terminate.\<close>

lemma four_or_more: "4 \<le> length xs \<Longrightarrow> \<exists>a b c d r. xs = a # b # c # d # r"
  by (auto simp: numeral_eq_Suc Suc_le_length_iff)

lemma cons_char_shorter:
  assumes "\<forall>s rest. r = Some (s, rest) \<longrightarrow> length rest < n" and "n \<le> m"
  shows "\<forall>s rest. cons_char u r = Some (s, rest) \<longrightarrow> length rest < m"
  using assms by (cases r) (auto simp: cons_char_def)

lemma scan_string_shorter:
  "\<forall>s rest. scan_string cs = Some (s, rest) \<longrightarrow> length rest < length cs"
proof (induction cs rule: scan_string.induct)
  case 1
  then show ?case by simp
next
  case (2 c cs)
  show ?case
  proof (cases "c = CHR 0x22")
    case True
    then show ?thesis by simp
  next
    case quote: False
    show ?thesis
    proof (cases "c = CHR 0x5C")
      case False
      show ?thesis
      proof (cases "(of_char c :: nat) < 32")
        case True
        then show ?thesis using quote False by simp
      next
        case ctl: False
        have "scan_string (c # cs) = cons_char c (scan_string cs)"
          using quote False ctl by simp
        then show ?thesis
          using cons_char_shorter [OF "2.IH"(3) [OF quote False ctl], of "length (c # cs)" c]
          by simp
      qed
    next
      case bs: True
      show ?thesis
      proof (cases cs)
        case Nil
        then show ?thesis using quote bs by simp
      next
        case (Cons e cs')
        show ?thesis
        proof (cases "e = CHR ''u''")
          case False
          show ?thesis
          proof (cases "simple_escape e")
            case None
            then show ?thesis using quote bs Cons False by simp
          next
            case (Some u)
            have "scan_string (c # cs) = cons_char u (scan_string cs')"
              using quote bs Cons False Some by simp
            then show ?thesis
              using cons_char_shorter
                [OF "2.IH"(2) [OF quote bs Cons False Some], of "length (c # cs)" u] Cons
              by simp
          qed
        next
          case u: True
          consider "length cs' < 4"
            | h3 h2 h1 h0 rest where "cs' = h3 # h2 # h1 # h0 # rest"
            using four_or_more [of cs'] by (cases "length cs' < 4") auto
          then show ?thesis
          proof cases
            case 1
            then have "scan_string (c # cs) = None"
              using quote bs Cons u by (auto split: list.splits)
            then show ?thesis by simp
          next
            case (2 h3 h2 h1 h0 rest)
            show ?thesis
            proof (cases "unicode_escape h3 h2 h1 h0")
              case None
              then show ?thesis using quote bs Cons u 2 by simp
            next
              case (Some v)
              have "scan_string (c # cs) = cons_char v (scan_string rest)"
                using quote bs Cons u 2 Some by simp
              moreover have "\<forall>s r. scan_string rest = Some (s, r) \<longrightarrow> length r < length rest"
                using "2.IH"(1) [OF quote bs Cons u 2 refl refl refl Some] .
              ultimately show ?thesis
                using cons_char_shorter [of "scan_string rest" "length rest" "length (c # cs)" v]
                  Cons 2 by simp
            qed
          qed
        qed
      qed
    qed
  qed
qed

lemma scan_string_length:
  "scan_string cs = Some (s, rest) \<Longrightarrow> length rest < length cs"
  using scan_string_shorter by blast

lemma length_dropWhile_takeWhile:
  "length (dropWhile P xs) + length (takeWhile P xs) = length xs"
  by (induction xs) auto

lemma scan_int_length:
  assumes "scan_int s = Some (i, r)"
  shows "length r < length s"
proof -
  from assms have "takeWhile isDigit s \<noteq> []" and r: "r = dropWhile isDigit s"
    by (auto simp: scan_int_def Let_def split: if_splits)
  then obtain d ds where "takeWhile isDigit s = d # ds"
    by (cases "takeWhile isDigit s") auto
  then have "length (takeWhile isDigit s) = Suc (length ds)" by simp
  then show ?thesis
    using length_dropWhile_takeWhile [of isDigit s] unfolding r by linarith
qed

lemma scan_frac_length: "scan_frac s = Some (f, r) \<Longrightarrow> length r \<le> length s"
  using length_dropWhile_le [of isDigit "drop 1 s"]
  by (auto simp: scan_frac_def Let_def split: if_splits)

lemma scan_exp_length: "scan_exp s = Some (e, r) \<Longrightarrow> length r \<le> length s"
  using length_dropWhile_le [of isDigit "drop 1 s"] length_dropWhile_le [of isDigit "drop 1 (drop 1 s)"]
  by (auto simp: scan_exp_def Let_def split: if_splits)

lemma scan_number_length:
  assumes "scan_number s = Some (q, rest)"
  shows "length rest < length s"
proof -
  define s1 where "s1 = (if startsWith s ''-'' then drop 1 s else s)"
  from assms obtain i s2 f s3 e where
    1: "scan_int s1 = Some (i, s2)" and 2: "scan_frac s2 = Some (f, s3)"
    and 3: "scan_exp s3 = Some (e, rest)"
    unfolding scan_number_def Let_def s1_def by (auto split: option.splits)
  have "length s1 \<le> length s" by (simp add: s1_def)
  then show ?thesis
    using scan_int_length [OF 1] scan_frac_length [OF 2] scan_exp_length [OF 3] by simp
qed


text \<open>
  The tokenizer. Whitespace between tokens is skipped; anything that does not start a
  token is a syntax error.
\<close>

function tokenize :: "string \<Rightarrow> token list option" where
  "tokenize [] = Some []"
| "tokenize (c # cs) =
     (if isJsonSpace c then tokenize cs
      else if c = CHR ''{'' then cons_token TLBrace (tokenize cs)
      else if c = CHR ''}'' then cons_token TRBrace (tokenize cs)
      else if c = CHR ''['' then cons_token TLBracket (tokenize cs)
      else if c = CHR '']'' then cons_token TRBracket (tokenize cs)
      else if c = CHR '':'' then cons_token TColon (tokenize cs)
      else if c = CHR '','' then cons_token TComma (tokenize cs)
      else if c = CHR 0x22 then
        (case scan_string cs of
           None \<Rightarrow> None
         | Some (s, rest) \<Rightarrow> cons_token (TString s) (tokenize rest))
      else if c = CHR ''-'' \<or> isDigit c then
        (case scan_number (c # cs) of
           None \<Rightarrow> None
         | Some (q, rest) \<Rightarrow> cons_token (TNumber q) (tokenize rest))
      else if startsWith (c # cs) ''true'' then cons_token TTrue (tokenize (drop 3 cs))
      else if startsWith (c # cs) ''false'' then cons_token TFalse (tokenize (drop 4 cs))
      else if startsWith (c # cs) ''null'' then cons_token TNull (tokenize (drop 3 cs))
      else None)"
  by pat_completeness auto
termination
  apply (relation "measure length")
  apply simp_all
  subgoal for c cs x2 x y using scan_string_length [of cs x y] by simp
  subgoal for c cs x2 x y using scan_number_length [of "c # cs" x y] by simp
  done

declare tokenize.simps [simp del]

text \<open>
  The reader. Its state says what may come next; the stack holds the containers that are
  still open: an array with the items read so far, or an object with the properties read
  so far and the key whose value is being read. A repeated key overwrites the earlier
  value, as \<open>obj_set\<close> does.
\<close>

datatype frame = InArray "jsval list" | InObject "(string \<times> jsval) list" string

datatype reader =
    ExpectValue
  | ExpectValueOrClose
  | ExpectKeyOrClose
  | ExpectKey "(string \<times> jsval) list"
  | ExpectColon "(string \<times> jsval) list" string
  | AfterValue jsval

text \<open>A token that starts (and, unless it opens a container, completes) a value.\<close>

definition begin_value :: "frame list \<Rightarrow> token \<Rightarrow> (reader \<times> frame list) option" where
  "begin_value stack t =
     (case t of
        TString s \<Rightarrow> Some (AfterValue (JStr s), stack)
      | TNumber q \<Rightarrow> Some (AfterValue (JNum q), stack)
      | TTrue \<Rightarrow> Some (AfterValue (JBool True), stack)
      | TFalse \<Rightarrow> Some (AfterValue (JBool False), stack)
      | TNull \<Rightarrow> Some (AfterValue JNull, stack)
      | TLBracket \<Rightarrow> Some (ExpectValueOrClose, InArray [] # stack)
      | TLBrace \<Rightarrow> Some (ExpectKeyOrClose, stack)
      | _ \<Rightarrow> None)"

fun read_token :: "reader \<Rightarrow> frame list \<Rightarrow> token \<Rightarrow> (reader \<times> frame list) option" where
  "read_token ExpectValue stack t = begin_value stack t"
| "read_token ExpectValueOrClose stack t =
     (case (t, stack) of
        (TRBracket, InArray xs # stack') \<Rightarrow> Some (AfterValue (JArr xs), stack')
      | _ \<Rightarrow> begin_value stack t)"
| "read_token ExpectKeyOrClose stack t =
     (case t of
        TRBrace \<Rightarrow> Some (AfterValue (JObj []), stack)
      | TString k \<Rightarrow> Some (ExpectColon [] k, stack)
      | _ \<Rightarrow> None)"
| "read_token (ExpectKey ps) stack t =
     (case t of TString k \<Rightarrow> Some (ExpectColon ps k, stack) | _ \<Rightarrow> None)"
| "read_token (ExpectColon ps k) stack t =
     (case t of TColon \<Rightarrow> Some (ExpectValue, InObject ps k # stack) | _ \<Rightarrow> None)"
| "read_token (AfterValue v) stack t =
     (case (t, stack) of
        (TComma, InArray xs # stack') \<Rightarrow> Some (ExpectValue, InArray (xs @ [v]) # stack')
      | (TRBracket, InArray xs # stack') \<Rightarrow> Some (AfterValue (JArr (xs @ [v])), stack')
      | (TComma, InObject ps k # stack') \<Rightarrow> Some (ExpectKey (obj_set k v ps), stack')
      | (TRBrace, InObject ps k # stack') \<Rightarrow> Some (AfterValue (JObj (obj_set k v ps)), stack')
      | _ \<Rightarrow> None)"

fun read_tokens :: "reader \<Rightarrow> frame list \<Rightarrow> token list \<Rightarrow> jsval option" where
  "read_tokens r stack [] = (case (r, stack) of (AfterValue v, []) \<Rightarrow> Some v | _ \<Rightarrow> None)"
| "read_tokens r stack (t # ts) =
     (case read_token r stack t of
        None \<Rightarrow> None
      | Some (r', stack') \<Rightarrow> read_tokens r' stack' ts)"

definition JSON_parse :: "string \<Rightarrow> jsval option" where
  "JSON_parse text =
     (case tokenize text of None \<Rightarrow> None | Some ts \<Rightarrow> read_tokens ExpectValue [] ts)"

section \<open>The generation service: \<open>generateRecipe\<close>\<close>

text \<open>
  \<open>s.replace(/^p/, "")\<close> and \<open>s.replace(/p$/, "")\<close> for a literal \<open>p\<close>: without the \<open>m\<close>
  flag the anchors match only at the two ends of the text.
\<close>

definition strip_prefix :: "string \<Rightarrow> string \<Rightarrow> string" where
  "strip_prefix p s = (if startsWith s p then drop (length p) s else s)"

definition strip_suffix :: "string \<Rightarrow> string \<Rightarrow> string" where
  "strip_suffix p s = (if endsWith s p then take (length s - length p) s else s)"

text \<open>The variable \<open>jsonText\<close> at the point where \<open>JSON.parse\<close> is called.\<close>

definition jsonText :: "string \<Rightarrow> string" where
  "jsonText text =
     (let trimmed = trim text
      in if startsWith trimmed ''```json'' then
           strip_suffix ''\<newline>```'' (strip_prefix ''```json\<newline>'' trimmed)
         else if startsWith trimmed ''```'' then
           strip_suffix ''\<newline>```'' (strip_prefix ''```\<newline>'' trimmed)
         else trimmed)"

text \<open>
  What \<open>generateRecipe\<close> does with the text of a response: unwrap, parse, and turn the
  \<open>SyntaxError\<close> of \<open>JSON.parse\<close> into the error \<open>AI returned invalid JSON format\<close>.
\<close>

definition extract_json :: "string \<Rightarrow> js_error + jsval" where
  "extract_json text =
     (case JSON_parse (jsonText text) of
        None \<Rightarrow> Inl (Error ''AI returned invalid JSON format'')
      | Some recipeData \<Rightarrow> Inr recipeData)"

text \<open>
  The remote model is outside the program. One call of \<open>generateContent\<close> followed by
  \<open>response.text()\<close> either yields a text or throws; of a thrown error the handler looks
  at whether it is a \<open>SyntaxError\<close> and at its message. The provider is a function of the
  number of calls made before and of the prompt, so that it may answer differently each
  time.
\<close>

datatype provider_outcome = Responds string | Throws bool string

type_synonym provider = "nat \<Rightarrow> string \<Rightarrow> provider_outcome"

text \<open>
  The part of the process state the generation endpoint touches: the environment variable,
  the module state of the Gemini service, and, to make the effects observable, the prompts
  sent to the provider, the number of calls of \<open>generateRecipe\<close>, the milliseconds spent
  in \<open>setTimeout\<close> and the documents handed to \<open>Recipe.create\<close>.
\<close>

record world =
  env_GEMINI_API_KEY :: "string option"
  gemini :: module_state
  prompts_sent :: "string list"
  generateRecipe_calls :: nat
  slept_ms :: nat
  created :: "jsval list"

definition world_init :: "string option \<Rightarrow> world" where
  "world_init key =
     \<lparr>env_GEMINI_API_KEY = key, gemini = module_init, prompts_sent = [],
      generateRecipe_calls = 0, slept_ms = 0, created = []\<rparr>"

text \<open>The message of the \<open>TypeError\<close> raised by calling a method on \<open>null\<close>.\<close>

definition null_model_message :: string where
  "null_model_message =
     ''Cannot read properties of null (reading '' @ [CHR 0x27] @ ''generateContent'' @ [CHR 0x27] @ '')''"

definition generateRecipe :: "provider \<Rightarrow> gen_params \<Rightarrow> world \<Rightarrow> (js_error + jsval) \<times> world" where
  "generateRecipe provider params w0 =
     (let w = w0\<lparr>generateRecipe_calls := generateRecipe_calls w0 + 1\<rparr>
      in case initializeGemini (env_GEMINI_API_KEY w) (gemini w) of
           Inl e \<Rightarrow> (Inl e, w)
         | Inr (aiModel, g) \<Rightarrow>
             (let w1 = w\<lparr>gemini := g\<rparr>;
                  prompt = buildRecipePrompt params
              in case aiModel of
                   None \<Rightarrow>
                     (Inl (Error (''Recipe generation failed: '' @ null_model_message)), w1)
                 | Some m \<Rightarrow>
                     (let outcome = provider (length (prompts_sent w1)) prompt;
                          w2 = w1\<lparr>prompts_sent := prompts_sent w1 @ [prompt]\<rparr>
                      in case outcome of
                           Throws is_SyntaxError message \<Rightarrow>
                             (if is_SyntaxError
                              then (Inl (Error ''AI returned invalid JSON format''), w2)
                              else (Inl (Error (''Recipe generation failed: '' @ message)), w2))
                         | Responds text \<Rightarrow> (extract_json text, w2))))"

section \<open>The endpoint \<open>POST /api/recipes/generate\<close>\<close>

text \<open>
  A response is its status and its JSON body; the \<open>timestamp\<close> property, a reading of
  the clock, is left out.
\<close>

record http_response =
  status :: nat
  body :: jsval

definition error_response :: "nat \<Rightarrow> string \<Rightarrow> string \<Rightarrow> http_response" where
  "error_response st code message =
     \<lparr>status = st,
      body = JObj [(''success'', JBool False),
                   (''error'', JObj [(''code'', JStr code), (''message'', JStr message)])]\<rparr>"

definition generated_response :: "jsval \<Rightarrow> string \<Rightarrow> http_response" where
  "generated_response savedRecipe recipe_id =
     \<lparr>status = 201,
      body = JObj [(''success'', JBool True),
                   (''data'', JObj [(''recipe'', savedRecipe),
                                    (''generationId'', JStr recipe_id),
                                    (''model'', JStr ''gemini-1.5-pro'')]),
                   (''message'', JStr ''Recipe generated successfully'')]\<rparr>"

definition maxRetries :: nat where
  "maxRetries = 2"

text \<open>
  The \<open>while\<close> loop. It is left by \<open>return\<close> with a response, by \<open>break\<close> with the
  validated recipe in \<open>aiRecipeData\<close>, or by its condition with \<open>aiRecipeData\<close> still
  \<open>undefined\<close>. The \<open>catch\<close> inside it catches whatever \<open>generateRecipe\<close> or
  \<open>validateAIRecipe\<close> throws.
\<close>

datatype loop_exit = Return http_response | Break jsval

function retry_loop :: "provider \<Rightarrow> gen_params \<Rightarrow> nat \<Rightarrow> world \<Rightarrow> loop_exit \<times> world" where
  "retry_loop provider params retryCount w =
     (if retryCount < maxRetries then
        (let (rawAIResponse, w1) = generateRecipe provider params w;
             validated = (case rawAIResponse of
                            Inl e \<Rightarrow> Inl e
                          | Inr raw \<Rightarrow> validateAIRecipe raw)
         in case validated of
              Inr aiRecipeData \<Rightarrow> (Break aiRecipeData, w1)
            | Inl validationError \<Rightarrow>
                (if retryCount + 1 \<ge> maxRetries then
                   (Return (error_response 500 ''AI_VALIDATION_FAILED''
                              ''AI generated invalid recipe format after retries''), w1)
                 else
                   retry_loop provider params (retryCount + 1)
                     (w1\<lparr>slept_ms := slept_ms w1 + 1000\<rparr>)))
      else (Break JUndefined, w))"
  by pat_completeness auto
termination
  by (relation "measure (\<lambda>(provider, params, retryCount, w). maxRetries - retryCount)") auto

declare retry_loop.simps [simp del]

text \<open>
  The request parameters as the object stored in \<open>generationParams\<close>: the properties
  that are defined, in the order of \<open>recipeGenerationSchema\<close>.
\<close>

definition opt_prop :: "string \<Rightarrow> ('a \<Rightarrow> jsval) \<Rightarrow> 'a option \<Rightarrow> (string \<times> jsval) list" where
  "opt_prop k f x = (case x of None \<Rightarrow> [] | Some v \<Rightarrow> [(k, f v)])"

definition strings_value :: "string list \<Rightarrow> jsval" where
  "strings_value xs = JArr (map JStr xs)"

definition nat_value :: "nat \<Rightarrow> jsval" where
  "nat_value n = JNum (of_nat n)"

definition params_value :: "gen_params \<Rightarrow> jsval" where
  "params_value p =
     JObj (opt_prop ''dietaryPreferences'' strings_value (dietaryPreferences p) @
           opt_prop ''allergies'' strings_value (allergies p) @
           opt_prop ''nutritionalFocus'' JStr (nutritionalFocus p) @
           opt_prop ''cuisineType'' JStr (cuisineType p) @
           opt_prop ''maxPrepTime'' nat_value (maxPrepTime p) @
           opt_prop ''maxCookTime'' nat_value (maxCookTime p) @
           opt_prop ''maxCalories'' nat_value (maxCalories p) @
           opt_prop ''servings'' nat_value (servings p) @
           opt_prop ''difficulty'' JStr (difficulty p) @
           opt_prop ''availableIngredients'' strings_value (availableIngredients p) @
           opt_prop ''excludeIngredients'' strings_value (excludeIngredients p) @
           opt_prop ''mealType'' JStr (mealType p))"

text \<open>
  \<open>{ ...aiRecipeData, userId, isGenerated: true, generationParams: params }\<close>. Spreading
  \<open>undefined\<close> adds nothing; \<open>aiRecipeData\<close> is never anything but \<open>undefined\<close> or an
  object.
\<close>

definition spread :: "jsval \<Rightarrow> (string \<times> jsval) list" where
  "spread x = (case x of JObj ps \<Rightarrow> ps | _ \<Rightarrow> [])"

definition recipeData_of :: "jsval \<Rightarrow> string \<Rightarrow> gen_params \<Rightarrow> jsval" where
  "recipeData_of aiRecipeData userId params =
     JObj (obj_set ''generationParams'' (params_value params)
            (obj_set ''isGenerated'' (JBool True)
              (obj_set ''userId'' (JStr userId) (spread aiRecipeData))))"

text \<open>
  The outer \<open>catch\<close>, reached by what is thrown outside the loop; \<open>None\<close> is an error
  without a message.
\<close>

definition generation_error_response :: "string option \<Rightarrow> http_response" where
  "generation_error_response message =
     (if (case message of None \<Rightarrow> False | Some m \<Rightarrow> includes_str m ''GEMINI_API_KEY'') then
        error_response 503 ''AI_SERVICE_UNAVAILABLE'' ''AI service is not configured''
      else if (case message of None \<Rightarrow> False | Some m \<Rightarrow> includes_str m ''AI returned invalid JSON'') then
        error_response 500 ''AI_INVALID_RESPONSE'' ''AI service returned invalid response''
      else error_response 500 ''GENERATION_ERROR'' ''Failed to generate recipe'')"

text \<open>
  Persistence is Mongoose and the database, outside the program: \<open>create recipeData\<close> is
  the outcome of \<open>Recipe.create(recipeData)\<close> followed by \<open>recipe.toObject()\<close>, either the
  message of the error thrown or the saved document and its id.
\<close>

type_synonym persistence = "jsval \<Rightarrow> string option + (jsval \<times> string)"

definition generate_handler ::
  "provider \<Rightarrow> persistence \<Rightarrow> gen_params \<Rightarrow> string \<Rightarrow> world \<Rightarrow> http_response \<times> world" where
  "generate_handler provider create params userId w =
     (case retry_loop provider params 0 w of
        (Return response, w1) \<Rightarrow> (response, w1)
      | (Break aiRecipeData, w1) \<Rightarrow>
          (let recipeData = recipeData_of aiRecipeData userId params;
               w2 = w1\<lparr>created := created w1 @ [recipeData]\<rparr>
           in case create recipeData of
                Inl message \<Rightarrow> (generation_error_response message, w2)
              | Inr (savedRecipe, recipe_id) \<Rightarrow> (generated_response savedRecipe recipe_id, w2)))"

text \<open>
  Persistence keeps the value \<open>v\<close> of the property \<open>k\<close> when every document handed in
  with that value there is saved with that value there. In \<open>models/Recipe.js\<close>,
  \<open>isGenerated\<close> is a Boolean path whose default \<open>false\<close> fills in a missing value only,
  \<open>userId\<close> is a String path and \<open>generationParams\<close> a Mixed path: a boolean, a string
  and an object handed in there are stored as they are.
\<close>

definition keeps :: "persistence \<Rightarrow> string \<Rightarrow> jsval \<Rightarrow> bool" where
  "keeps create k v =
     (\<forall>recipeData savedRecipe recipe_id.
        create recipeData = Inr (savedRecipe, recipe_id) \<longrightarrow>
        field recipeData k = v \<longrightarrow> field savedRecipe k = v)"

text \<open>
  A world in which a call of the provider can take place: the key is configured, and the
  module state is one that \<open>initializeGemini\<close> leaves behind, with nothing initialised yet
  or with the model in place.
\<close>

definition provider_ready :: "world \<Rightarrow> bool" where
  "provider_ready w =
     ((case env_GEMINI_API_KEY w of None \<Rightarrow> False | Some k \<Rightarrow> k \<noteq> [])
      \<and> (genAI (gemini w) = None \<or> model (gemini w) \<noteq> None))"

section \<open>Sample inputs\<close>

text \<open>A request that names two allergies.\<close>

definition params_peanuts :: gen_params where
  "params_peanuts = \<lparr>dietaryPreferences = Some [], allergies = Some [''Peanuts'', ''Soy''],
     nutritionalFocus = None, cuisineType = None, maxPrepTime = None, maxCookTime = None,
     maxCalories = None, servings = Some 4, difficulty = Some ''Medium'',
     availableIngredients = None, excludeIngredients = None, mealType = None\<rparr>"


text \<open>A candidate recipe that names only the required properties.\<close>

definition minimal_recipe :: "(string \<times> jsval) list" where
  "minimal_recipe =
     [(''title'', JStr ''Soup''),
      (''description'', JStr ''A plain vegetable soup.''),
      (''prepTime'', JStr ''10 min''),
      (''cookTime'', JStr ''20 min''),
      (''servings'', JNum 4),
      (''calories'', JNum 250),
      (''difficulty'', JStr ''Medium''),
      (''nutrition'',
         JObj [(''protein'', JStr ''5g''), (''carbs'', JStr ''30g''),
               (''fat'', JStr ''3g''), (''fiber'', JStr ''6g'')]),
      (''ingredients'', JArr [JObj [(''amount'', JStr ''1 cup''), (''item'', JStr ''carrots'')]]),
      (''steps'',
         JArr [JObj [(''number'', JNum 1), (''title'', JStr ''Boil''),
                     (''description'', JStr ''Boil the carrots.'')]])]"

text \<open>
  What \<open>aiRecipeSchema\<close> and \<open>createRecipeSchema\<close> return for \<open>minimal_recipe\<close>.
\<close>

definition minimal_recipe_ai :: "(string \<times> jsval) list" where
  "minimal_recipe_ai =
     [(''title'', JStr ''Soup''),
      (''subtitle'', JStr ''''),
      (''description'', JStr ''A plain vegetable soup.''),
      (''prepTime'', JStr ''10 min''),
      (''cookTime'', JStr ''20 min''),
      (''servings'', JNum 4),
      (''calories'', JNum 250),
      (''difficulty'', JStr ''Medium''),
      (''tags'', JArr []),
      (''cuisine'', JStr ''International''),
      (''imageUrl'', JStr ''''),
      (''nutrition'',
         JObj [(''protein'', JStr ''5g''), (''carbs'', JStr ''30g''),
               (''fat'', JStr ''3g''), (''fiber'', JStr ''6g''),
               (''sodium'', JStr ''0mg''), (''sugar'', JStr ''0g'')]),
      (''ingredients'', JArr [JObj [(''amount'', JStr ''1 cup''), (''item'', JStr ''carrots'')]]),
      (''dressingIngredients'', JArr []),
      (''steps'',
         JArr [JObj [(''number'', JNum 1), (''title'', JStr ''Boil''),
                     (''description'', JStr ''Boil the carrots.'')]]),
      (''shoppingList'', JArr []),
      (''youtubeId'', JStr ''''),
      (''videoUrl'', JStr ''''),
      (''isGenerated'', JBool True)]"

definition minimal_recipe_created :: "(string \<times> jsval) list" where
  "minimal_recipe_created =
     [(''title'', JStr ''Soup''),
      (''description'', JStr ''A plain vegetable soup.''),
      (''prepTime'', JStr ''10 min''),
      (''cookTime'', JStr ''20 min''),
      (''servings'', JNum 4),
      (''calories'', JNum 250),
      (''difficulty'', JStr ''Medium''),
      (''tags'', JArr []),
      (''nutrition'',
         JObj [(''protein'', JStr ''5g''), (''carbs'', JStr ''30g''),
               (''fat'', JStr ''3g''), (''fiber'', JStr ''6g'')]),
      (''ingredients'', JArr [JObj [(''amount'', JStr ''1 cup''), (''item'', JStr ''carrots'')]]),
      (''steps'',
         JArr [JObj [(''number'', JNum 1), (''title'', JStr ''Boil''),
                     (''description'', JStr ''Boil the carrots.'')]]),
      (''shoppingList'', JArr []),
      (''isGenerated'', JBool False)]"

text \<open>
  A stand-in for the platform's URL parser when an example is run. The examples carry no
  URL, so it is never consulted on them.
\<close>

definition isURL_example :: "string \<Rightarrow> bool" where
  "isURL_example s = (startsWith s ''http://'' \<or> startsWith s ''https://'')"

text \<open>
  A provider response: the minimal recipe as JSON text, with values of its own for
  \<open>isGenerated\<close>, \<open>userId\<close> and \<open>generationParams\<close>.
\<close>

definition minimal_recipe_text :: string where
  \<open>minimal_recipe_text =
     ''{"title":"Soup","description":"A plain vegetable soup.",'' @
     ''"prepTime":"10 min","cookTime":"20 min","servings":4,"calories":250,'' @
     ''"difficulty":"Medium",'' @
     ''"nutrition":{"protein":"5g","carbs":"30g","fat":"3g","fiber":"6g"},'' @
     ''"ingredients":[{"amount":"1 cup","item":"carrots"}],'' @
     ''"steps":[{"number":1,"title":"Boil","description":"Boil the carrots."}],'' @
     ''"isGenerated":false,"userId":"mallory","generationParams":{"servings":99}}''\<close>

text \<open>A stand-in for persistence that stores the document as it is.\<close>

definition create_example :: "jsval \<Rightarrow> string option + (jsval \<times> string)" where
  "create_example recipeData = Inr (recipeData, ''507f1f77bcf86cd799439011'')"

text \<open>
  The document the endpoint hands to \<open>Recipe.create\<close> when user \<open>user-1\<close> asks with
  \<open>params_peanuts\<close> and the provider answers \<open>minimal_recipe_text\<close>.
\<close>

definition minimal_recipeData :: "(string \<times> jsval) list" where
  "minimal_recipeData =
     [(''title'', JStr ''Soup''),
      (''subtitle'', JStr ''''),
      (''description'', JStr ''A plain vegetable soup.''),
      (''prepTime'', JStr ''10 min''),
      (''cookTime'', JStr ''20 min''),
      (''servings'', JNum 4),
      (''calories'', JNum 250),
      (''difficulty'', JStr ''Medium''),
      (''tags'', JArr []),
      (''cuisine'', JStr ''International''),
      (''imageUrl'', JStr ''''),
      (''nutrition'',
         JObj [(''protein'', JStr ''5g''), (''carbs'', JStr ''30g''),
               (''fat'', JStr ''3g''), (''fiber'', JStr ''6g''),
               (''sodium'', JStr ''0mg''), (''sugar'', JStr ''0g'')]),
      (''ingredients'', JArr [JObj [(''amount'', JStr ''1 cup''), (''item'', JStr ''carrots'')]]),
      (''dressingIngredients'', JArr []),
      (''steps'',
         JArr [JObj [(''number'', JNum 1), (''title'', JStr ''Boil''),
                     (''description'', JStr ''Boil the carrots.'')]]),
      (''shoppingList'', JArr []),
      (''youtubeId'', JStr ''''),
      (''videoUrl'', JStr ''''),
      (''isGenerated'', JBool True),
      (''userId'', JStr ''user-1''),
      (''generationParams'',
         JObj [(''dietaryPreferences'', JArr []),
               (''allergies'', JArr [JStr ''Peanuts'', JStr ''Soy'']),
               (''servings'', JNum 4),
               (''difficulty'', JStr ''Medium'')])]"

text \<open>
  The minimal recipe with an \<open>imageUrl\<close> that is not a URL (\<open>new URL("not a url")\<close> throws,
  and the stand-in rejects it too).
\<close>

definition recipe_with_bad_imageUrl :: "(string \<times> jsval) list" where
  "recipe_with_bad_imageUrl = obj_set ''imageUrl'' (JStr ''not a url'') minimal_recipe"

text \<open>
  What \<open>JSON.parse\<close> reads in \<open>minimal_recipe_text\<close>, and what \<open>validateAIRecipe\<close> makes
  of it: the provider's \<open>isGenerated\<close> is \<open>false\<close> and survives validation, its
  \<open>userId\<close> and \<open>generationParams\<close> are stripped.
\<close>

definition minimal_recipe_candidate :: "(string \<times> jsval) list" where
  "minimal_recipe_candidate =
     minimal_recipe @
     [(''isGenerated'', JBool False),
      (''userId'', JStr ''mallory''),
      (''generationParams'', JObj [(''servings'', JNum 99)])]"

definition minimal_recipe_validated :: "(string \<times> jsval) list" where
  "minimal_recipe_validated = obj_set ''isGenerated'' (JBool False) minimal_recipe_ai"

text \<open>The state of the process after that request has been served.\<close>

definition world_after_example :: world where
  "world_after_example =
     \<lparr>env_GEMINI_API_KEY = Some ''test-key'',
      gemini = \<lparr>genAI = Some 0, model = Some 1,
         store = [GoogleGenerativeAI ''test-key'',
                  GenerativeModel 0 ''gemini-1.5-pro''
                    \<lparr>temperature = 7 / 10, topK = 40, topP = 95 / 100, maxOutputTokens = 8192\<rparr>]\<rparr>,
      prompts_sent = [buildRecipePrompt params_peanuts],
      generateRecipe_calls = 1, slept_ms = 0,
      created = [JObj minimal_recipeData]\<rparr>"

section \<open>Properties of \<open>initializeGemini\<close>\<close>

lemma initializeGemini_first:
  assumes "k \<noteq> []"
  shows "initializeGemini (Some k) module_init =
     Inr (Some 1, \<lparr>genAI = Some 0, model = Some 1,
            store = [GoogleGenerativeAI k,
                     GenerativeModel 0 ''gemini-1.5-pro''
                       \<lparr>temperature = 7 / 10, topK = 40, topP = 95 / 100, maxOutputTokens = 8192\<rparr>]\<rparr>)"
  using assms by (simp add: initializeGemini_def module_init_def new_object_def)

lemma initializeGemini_again:
  assumes "k \<noteq> []" "genAI s \<noteq> None"
  shows "initializeGemini (Some k) s = Inr (model s, s)"
  using assms by (auto simp: initializeGemini_def)

lemma initializeGemini_calls_again:
  assumes "genAI s \<noteq> None" "\<forall>k \<in> set ks. k \<noteq> []"
  shows "initializeGemini_calls (map Some ks) s = (replicate (length ks) (Inr (model s)), s)"
  using assms by (induction ks) (simp_all add: initializeGemini_again)

text \<open>
  Claim C10. With a configured (non-empty) API key, the first call on a freshly loaded module
  constructs exactly two objects, the client and the model, and returns the model. Every
  later call made while a key is configured, whatever its value then, returns the same
  model reference and leaves the module state and the store untouched: nothing is
  constructed again.
\<close>

theorem initializeGemini_idempotent:
  assumes "k \<noteq> []" and "\<forall>k' \<in> set ks. k' \<noteq> []"
  shows "\<exists>m s1. initializeGemini (Some k) module_init = Inr (Some m, s1)
           \<and> length (store s1) = 2
           \<and> initializeGemini_calls (map Some ks) s1 = (replicate (length ks) (Inr (Some m)), s1)"
  using assms initializeGemini_first [of k]
  by (simp add: initializeGemini_calls_again)

theorem initializeGemini_idempotent_witness:
  "\<exists>m s1. initializeGemini (Some ''key-1'') module_init = Inr (Some m, s1)
           \<and> length (store s1) = 2
           \<and> initializeGemini_calls [Some ''key-1'', Some ''key-2'', Some ''key-1''] s1
               = ([Inr (Some m), Inr (Some m), Inr (Some m)], s1)"
  using initializeGemini_idempotent [of "''key-1''" "[''key-1'', ''key-2'', ''key-1'']"]
  by (simp add: numeral_3_eq_3)

section \<open>Properties of the prompt\<close>

lemma startsWith_iff: "startsWith s p \<longleftrightarrow> (\<exists>b. s = p @ b)"
  unfolding startsWith_def
  by (metis append_eq_conv_conj append_take_drop_id)

lemma includes_str_iff: "includes_str s p \<longleftrightarrow> (\<exists>a b. s = a @ p @ b)"
proof (induction s)
  case Nil
  then show ?case by (simp add: includes_str.simps)
next
  case (Cons c cs)
  show ?case
  proof
    assume "includes_str (c # cs) p"
    then consider "startsWith (c # cs) p" | "includes_str cs p"
      by (auto simp: includes_str.simps)
    then show "\<exists>a b. c # cs = a @ p @ b"
    proof cases
      case 1
      then obtain b where "c # cs = p @ b" by (auto simp: startsWith_iff)
      then have "c # cs = [] @ p @ b" by simp
      then show ?thesis by blast
    next
      case 2
      then obtain a b where "cs = a @ p @ b" using Cons.IH by blast
      then have "c # cs = (c # a) @ p @ b" by simp
      then show ?thesis by blast
    qed
  next
    assume "\<exists>a b. c # cs = a @ p @ b"
    then obtain a b where ab: "c # cs = a @ p @ b" by blast
    show "includes_str (c # cs) p"
    proof (cases a)
      case Nil
      then have "startsWith (c # cs) p" using ab by (auto simp: startsWith_iff)
      then show ?thesis by (simp add: includes_str.simps)
    next
      case (Cons x a')
      then have "cs = a' @ p @ b" using ab by simp
      then show ?thesis using Cons.IH by (auto simp: includes_str.simps)
    qed
  qed
qed

lemma includes_strI: "s = a @ p @ b \<Longrightarrow> includes_str s p"
  by (auto simp: includes_str_iff)

lemma join_line:
  "x \<in> set xs \<Longrightarrow> \<exists>a b. sep @ join sep xs @ sep = a @ sep @ x @ sep @ b"
proof (induction sep xs rule: join.induct)
  case (1 sep)
  then show ?case by simp
next
  case (2 sep y)
  then have "sep @ join sep [y] @ sep = [] @ sep @ x @ sep @ []" by simp
  then show ?case by blast
next
  case (3 sep y z zs)
  show ?case
  proof (cases "x = y")
    case True
    then have "sep @ join sep (y # z # zs) @ sep = [] @ sep @ x @ sep @ (join sep (z # zs) @ sep)"
      by simp
    then show ?thesis by blast
  next
    case False
    then have "x \<in> set (z # zs)" using 3 by simp
    then obtain a b where "sep @ join sep (z # zs) @ sep = a @ sep @ x @ sep @ b"
      using 3 by blast
    then have "sep @ join sep (y # z # zs) @ sep = (sep @ y @ a) @ sep @ x @ sep @ b"
      by simp
    then show ?thesis by blast
  qed
qed

lemma join_elem: "x \<in> set xs \<Longrightarrow> \<exists>a b. join sep xs = a @ x @ b"
proof (induction sep xs rule: join.induct)
  case (1 sep)
  then show ?case by simp
next
  case (2 sep y)
  then have "join sep [y] = [] @ x @ []" by simp
  then show ?case by blast
next
  case (3 sep y z zs)
  show ?case
  proof (cases "x = y")
    case True
    then have "join sep (y # z # zs) = [] @ x @ (sep @ join sep (z # zs))" by simp
    then show ?thesis by blast
  next
    case False
    then have "x \<in> set (z # zs)" using 3 by simp
    then obtain a b where "join sep (z # zs) = a @ x @ b" using 3 by blast
    then have "join sep (y # z # zs) = (y @ sep @ a) @ x @ b" by simp
    then show ?thesis by blast
  qed
qed

lemma in_push_if: "x \<in> set (push_if b line cs) \<longleftrightarrow> (b \<and> x = line) \<or> x \<in> set cs"
  by (auto simp: push_if_def)

lemma in_push_number: "x \<in> set cs \<Longrightarrow> x \<in> set (push_number lead n rest cs)"
  by (simp add: push_number_def split: option.splits)

lemma allergy_line_pushed:
  assumes "allergies p = Some al" "al \<noteq> []"
  shows "''STRICT ALLERGIES (must avoid): '' @ join '', '' al \<in> set (constraints p)"
proof -
  let ?line = "''STRICT ALLERGIES (must avoid): '' @ join '', '' al"
  have al: "or_default [] (allergies p) = al" using assms(1) by (simp add: or_default_def)
  have "?line \<in> set (push_if (length al > 0) ?line c1)" for c1
    using assms(2) by (simp only: in_push_if) simp
  then have "?line \<in> set (push_if b4 l4 (push_if b3 l3 (push_if (length al > 0) ?line c1)))"
    for b3 l3 b4 l4 c1
    by (simp only: in_push_if) blast
  then have "?line \<in> set (push_number a7 n7 r7 (push_number a6 n6 r6 (push_number a5 n5 r5
      (push_if b4 l4 (push_if b3 l3 (push_if (length al > 0) ?line c1))))))"
    for a5 n5 r5 a6 n6 r6 a7 n7 r7 b3 l3 b4 l4 c1
    by (intro in_push_number)
  then have "?line \<in> set (push_if b9 l9 (push_if b8 l8
      (push_number a7 n7 r7 (push_number a6 n6 r6 (push_number a5 n5 r5
      (push_if b4 l4 (push_if b3 l3 (push_if (length al > 0) ?line c1))))))))"
    for a5 n5 r5 a6 n6 r6 a7 n7 r7 b3 l3 b4 l4 b8 l8 b9 l9 c1
    by (simp only: in_push_if) blast
  then show ?thesis
    unfolding constraints_def Let_def al by blast
qed

lemma prompt_rules_newline: "\<exists>r. prompt_rules = ''\<newline>'' @ r"
  by (simp add: prompt_rules_def)

lemma includes_str_trans:
  "includes_str s t \<Longrightarrow> includes_str t u \<Longrightarrow> includes_str s u"
  unfolding includes_str_iff
  by (metis append.assoc)

text \<open>
  Claim C7. Whenever the request carries a non-empty \<open>allergies\<close> array, the prompt has the
  line \<open>- STRICT ALLERGIES (must avoid): a1, a2, ...\<close> on a line of its own: the strict
  qualifier is followed by the terms joined with \<open>", "\<close>, so every allergy term occurs
  verbatim in that line and hence in the prompt. The line is never left out.
\<close>

theorem buildRecipePrompt_allergies:
  assumes "allergies p = Some al" and "al \<noteq> []"
  shows "includes_str (buildRecipePrompt p)
           (''\<newline>- STRICT ALLERGIES (must avoid): '' @ join '', '' al @ ''\<newline>'')
         \<and> (\<forall>a \<in> set al. includes_str (join '', '' al) a \<and> includes_str (buildRecipePrompt p) a)"
proof -
  let ?line = "''STRICT ALLERGIES (must avoid): '' @ join '', '' al"
  let ?lines = "map (\<lambda>c. ''- '' @ c) (constraints p)"
  have "''- '' @ ?line \<in> set ?lines"
    using allergy_line_pushed [OF assms] by (simp add: image_iff)
  then obtain a b where ab:
    "''\<newline>'' @ join ''\<newline>'' ?lines @ ''\<newline>'' = a @ ''\<newline>'' @ (''- '' @ ?line) @ ''\<newline>'' @ b"
    using join_line by blast
  obtain r where r: "prompt_rules = ''\<newline>'' @ r"
    using prompt_rules_newline by blast
  define pre where "pre = prompt_preamble @ Number_toString (or_default 4 (servings p)) @
      ''\<newline>- Difficulty level: '' @ or_default ''Medium'' (difficulty p) @ ''\<newline>'' @
      (if truthy_string (or_default [] (mealType p))
       then ''- Meal type: '' @ or_default [] (mealType p) else [])"
  define post where "post = r @ Number_toString (or_default 4 (servings p)) @
      prompt_schema_difficulty @ or_default ''Medium'' (difficulty p) @
      prompt_schema_cuisine @
      (if truthy_string (or_default [] (cuisineType p))
       then or_default [] (cuisineType p) else ''International'') @
      prompt_schema_rest"
  have pp: "buildRecipePrompt p =
      pre @ (''\<newline>'' @ join ''\<newline>'' ?lines @ ''\<newline>'') @ post"
    unfolding buildRecipePrompt_def Let_def r pre_def post_def by (simp only: append_assoc)
  have 1: "includes_str (buildRecipePrompt p) (''\<newline>- '' @ ?line @ ''\<newline>'')"
    apply (rule includes_strI [where a = "pre @ a" and b = "b @ post"])
    using pp ab by simp
  have 2: "includes_str (''\<newline>- '' @ ?line @ ''\<newline>'') (join '', '' al)"
    by (rule includes_strI [where a = "''\<newline>- STRICT ALLERGIES (must avoid): ''" and b = "''\<newline>''"]) simp
  have 3: "includes_str (join '', '' al) x" if "x \<in> set al" for x
    using join_elem [OF that] by (auto simp: includes_str_iff)
  have 4: "includes_str (buildRecipePrompt p) x" if "x \<in> set al" for x
    using includes_str_trans [OF includes_str_trans [OF 1 2] 3 [OF that]] .
  have 5: "includes_str (buildRecipePrompt p)
      (''\<newline>- STRICT ALLERGIES (must avoid): '' @ join '', '' al @ ''\<newline>'')"
    using 1 by simp
  from 5 3 4 show ?thesis by blast
qed

theorem buildRecipePrompt_allergies_witness:
  "includes_str (buildRecipePrompt params_peanuts)
     (''\<newline>- STRICT ALLERGIES (must avoid): Peanuts, Soy\<newline>'')
   \<and> includes_str (buildRecipePrompt params_peanuts) ''Peanuts''
   \<and> includes_str (buildRecipePrompt params_peanuts) ''Soy''"
  using buildRecipePrompt_allergies [of params_peanuts "[''Peanuts'', ''Soy'']"]
  by (simp add: params_peanuts_def)

section \<open>Properties of the validators\<close>

lemmas zod_defs = z_string_def z_number_def z_boolean_def z_enum_def z_literal_def z_any_def
  z_optional_def z_default_def z_or_def z_array_def z_object_def check_def min_str_def max_str_def
  trim_str_def url_str_def int_num_def min_num_def max_num_def positive_num_def min_items_def
  has_key_def

lemmas ai_defs = aiRecipeSchema_def aiRecipeShape_def nutritionSchema_aiResponse_def
  nutritionShape_aiResponse_def ingredientSchema_aiResponse_def recipeStepSchema_aiResponse_def
  shoppingCategorySchema_aiResponse_def

lemma parse_shape_valid_iff:
  "parse_shape shape data \<noteq> Invalid \<longleftrightarrow> (\<forall>(k, p) \<in> set shape. p (obj_get data k) \<noteq> Invalid)"
  by (induction shape) (auto split: parsed.splits)

lemma obj_get_undefined: "k \<notin> fst ` set ps \<Longrightarrow> obj_get ps k = JUndefined"
  by (induction ps) auto

lemma parse_shape_keys:
  "parse_shape shape data = Valid out \<Longrightarrow> fst ` set out \<subseteq> fst ` set shape"
  by (induction shape arbitrary: out) (force split: parsed.splits if_splits)+

lemma parse_shape_get:
  "parse_shape shape data = Valid out \<Longrightarrow> distinct (map fst shape) \<Longrightarrow> (k, p) \<in> set shape
   \<Longrightarrow> p (obj_get data k) = Valid (obj_get out k)"
proof (induction shape arbitrary: out)
  case Nil
  then show ?case by simp
next
  case (Cons kp shape)
  obtain k0 p0 where kp: "kp = (k0, p0)" by (cases kp)
  from Cons.prems(1) kp obtain v0 out' where
    v0: "p0 (obj_get data k0) = Valid v0" and
    out': "parse_shape shape data = Valid out'" and
    out: "out = (if v0 \<noteq> JUndefined \<or> has_key data k0 then (k0, v0) # out' else out')"
    by (auto split: parsed.splits)
  from Cons.prems(2) kp have k0: "k0 \<notin> fst ` set shape" and d: "distinct (map fst shape)"
    by auto
  show ?case
  proof (cases "(k, p) = (k0, p0)")
    case True
    have "obj_get out' k0 = JUndefined"
      using parse_shape_keys [OF out'] k0 by (intro obj_get_undefined) auto
    then have "obj_get out k0 = v0" using out by auto
    then show ?thesis using True v0 by simp
  next
    case False
    then have mem: "(k, p) \<in> set shape" using Cons.prems(3) kp by auto
    then have "k \<noteq> k0" using k0 by force
    then have "obj_get out k = obj_get out' k" using out by auto
    then show ?thesis using Cons.IH [OF out' d mem] by simp
  qed
qed

lemma field_JObj [simp]: "field (JObj ps) k = obj_get ps k"
  by (simp add: field_def)

lemma obj_get_obj_set: "obj_get (obj_set k v ps) k' = (if k' = k then v else obj_get ps k')"
  by (induction ps) auto

lemma aiRecipeShape_distinct: "distinct (map fst aiRecipeShape)"
  by (simp add: aiRecipeShape_def)

lemma nutritionShape_distinct: "distinct (map fst nutritionShape_aiResponse)"
  by (simp add: nutritionShape_aiResponse_def)

lemma validateAIRecipe_Inr_iff:
  "validateAIRecipe c = Inr r \<longleftrightarrow> aiRecipeSchema c = Valid r"
  by (simp add: validateAIRecipe_def split: parsed.splits)

lemma validateAIRecipe_Inl_iff:
  "validateAIRecipe c = Inl e \<longleftrightarrow> e = ZodError \<and> aiRecipeSchema c = Invalid"
  by (auto simp add: validateAIRecipe_def split: parsed.splits)

lemma z_object_Valid:
  "z_object shape c = Valid r \<longleftrightarrow> (\<exists>data out. c = JObj data \<and> r = JObj out \<and> parse_shape shape data = Valid out)"
  by (auto simp: z_object_def split: jsval.splits parsed.splits)

lemma z_object_Invalid:
  "z_object shape (JObj data) = Invalid \<longleftrightarrow> (\<exists>(k, p) \<in> set shape. p (obj_get data k) = Invalid)"
  using parse_shape_valid_iff [of shape data]
  by (auto simp: z_object_def split: parsed.splits)

lemma servings_in_shape:
  "(''servings'', z_number [int_num, min_num 1, max_num 100]) \<in> set aiRecipeShape"
  by (simp add: aiRecipeShape_def)

lemma servings_schema:
  "z_number [int_num, min_num 1, max_num 100] (JNum q) \<noteq> Invalid \<longleftrightarrow> isInteger q \<and> 1 \<le> q \<and> q \<le> 100"
  by (simp add: z_number_def int_num_def min_num_def max_num_def check_def split: parsed.splits)

lemma servings_rejected:
  assumes "field c ''servings'' = JNum q" "\<not> (isInteger q \<and> 1 \<le> q \<and> q \<le> 100)"
  shows "validateAIRecipe c = Inl ZodError"
proof (cases c)
  case (JObj data)
  then have "obj_get data ''servings'' = JNum q" using assms(1) by (simp add: field_def)
  then have "z_number [int_num, min_num 1, max_num 100] (obj_get data ''servings'') = Invalid"
    using servings_schema [of q] assms(2) by simp
  then have "z_object aiRecipeShape (JObj data) = Invalid"
    unfolding z_object_Invalid using servings_in_shape by blast
  then show ?thesis using JObj by (simp add: validateAIRecipe_Inl_iff aiRecipeSchema_def)
qed (use assms(1) in \<open>simp_all add: field_def\<close>)

lemma servings_accepted:
  assumes others: "\<forall>(k, p) \<in> set aiRecipeShape. k \<noteq> ''servings'' \<longrightarrow> accepts p (obj_get data k)"
    and s: "obj_get data ''servings'' = JNum q" "isInteger q" "1 \<le> q" "q \<le> 100"
  shows "\<exists>r. validateAIRecipe (JObj data) = Inr r \<and> field r ''servings'' = JNum q"
proof -
  have all: "\<forall>(k, p) \<in> set aiRecipeShape. p (obj_get data k) \<noteq> Invalid"
  proof (clarify)
    fix k p assume kp: "(k, p) \<in> set aiRecipeShape" and inv: "p (obj_get data k) = Invalid"
    show False
    proof (cases "k = ''servings''")
      case True
      then have "p = z_number [int_num, min_num 1, max_num 100]"
        using kp aiRecipeShape_distinct servings_in_shape
        by (metis eq_key_imp_eq_value)
      then show False using inv True s servings_schema [of q] by simp
    next
      case False
      then show False using others kp inv by (auto simp: accepts_def)
    qed
  qed
  then obtain out where out: "parse_shape aiRecipeShape data = Valid out"
    using parse_shape_valid_iff [of aiRecipeShape data] by (cases "parse_shape aiRecipeShape data") auto
  have "z_number [int_num, min_num 1, max_num 100] (obj_get data ''servings'') = Valid (obj_get out ''servings'')"
    using parse_shape_get [OF out aiRecipeShape_distinct servings_in_shape] .
  then have "obj_get out ''servings'' = JNum q"
    using s by (simp add: z_number_def int_num_def min_num_def max_num_def check_def)
  then show ?thesis using out
    by (simp add: validateAIRecipe_def aiRecipeSchema_def z_object_def field_def)
qed

text \<open>
  Claim C8. Any candidate whose \<open>servings\<close> is 0 fails validation, and so does any
  candidate whose \<open>servings\<close> is 101. A candidate in which every other property of the
  schema passes is accepted when \<open>servings\<close> is 1 and when it is 100, and the validated
  recipe carries that value.
\<close>

theorem validateAIRecipe_servings_bounds:
  "(field c ''servings'' = JNum 0 \<longrightarrow> validateAIRecipe c = Inl ZodError)
   \<and> (field c ''servings'' = JNum 101 \<longrightarrow> validateAIRecipe c = Inl ZodError)
   \<and> ((\<forall>(k, p) \<in> set aiRecipeShape. k \<noteq> ''servings'' \<longrightarrow> accepts p (obj_get data k)) \<longrightarrow>
        (obj_get data ''servings'' = JNum 1 \<longrightarrow>
           (\<exists>r. validateAIRecipe (JObj data) = Inr r \<and> field r ''servings'' = JNum 1))
        \<and> (obj_get data ''servings'' = JNum 100 \<longrightarrow>
           (\<exists>r. validateAIRecipe (JObj data) = Inr r \<and> field r ''servings'' = JNum 100)))"
proof (intro conjI impI)
  assume "field c ''servings'' = JNum 0"
  then show "validateAIRecipe c = Inl ZodError" by (rule servings_rejected) simp
next
  assume "field c ''servings'' = JNum 101"
  then show "validateAIRecipe c = Inl ZodError" by (rule servings_rejected) simp
next
  assume "\<forall>(k, p) \<in> set aiRecipeShape. k \<noteq> ''servings'' \<longrightarrow> accepts p (obj_get data k)"
    and "obj_get data ''servings'' = JNum 1"
  then show "\<exists>r. validateAIRecipe (JObj data) = Inr r \<and> field r ''servings'' = JNum 1"
    by (rule servings_accepted) (simp_all add: isInteger_def)
next
  assume "\<forall>(k, p) \<in> set aiRecipeShape. k \<noteq> ''servings'' \<longrightarrow> accepts p (obj_get data k)"
    and "obj_get data ''servings'' = JNum 100"
  then show "\<exists>r. validateAIRecipe (JObj data) = Inr r \<and> field r ''servings'' = JNum 100"
    by (rule servings_accepted) (simp_all add: isInteger_def)
qed

lemma isInteger_numeral [simp]: "isInteger (numeral n)" "isInteger 0" "isInteger 1"
  by (simp_all add: isInteger_def)

lemma minimal_others:
  "\<forall>(k, p) \<in> set aiRecipeShape. k \<noteq> ''servings'' \<longrightarrow> accepts p (obj_get minimal_recipe k)"
  by (simp add: accepts_def minimal_recipe_def ai_defs zod_defs)

theorem validateAIRecipe_servings_bounds_witness:
  "validateAIRecipe (JObj (obj_set ''servings'' (JNum 0) minimal_recipe)) = Inl ZodError
   \<and> validateAIRecipe (JObj (obj_set ''servings'' (JNum 101) minimal_recipe)) = Inl ZodError
   \<and> (\<exists>r. validateAIRecipe (JObj (obj_set ''servings'' (JNum 1) minimal_recipe)) = Inr r
          \<and> field r ''servings'' = JNum 1)
   \<and> (\<exists>r. validateAIRecipe (JObj (obj_set ''servings'' (JNum 100) minimal_recipe)) = Inr r
          \<and> field r ''servings'' = JNum 100)"
  using
    validateAIRecipe_servings_bounds
      [of "JObj (obj_set ''servings'' (JNum 0) minimal_recipe)"
          "obj_set ''servings'' (JNum 1) minimal_recipe"]
    validateAIRecipe_servings_bounds
      [of "JObj (obj_set ''servings'' (JNum 101) minimal_recipe)"
          "obj_set ''servings'' (JNum 100) minimal_recipe"]
  by (simp add: minimal_others obj_get_obj_set)

lemma ai_field:
  assumes "validateAIRecipe c = Inr r" and "(k, p) \<in> set aiRecipeShape"
  shows "p (field c k) = Valid (field r k)"
proof -
  from assms(1) obtain data out where
    c: "c = JObj data" and r: "r = JObj out" and out: "parse_shape aiRecipeShape data = Valid out"
    by (auto simp: validateAIRecipe_Inr_iff aiRecipeSchema_def z_object_Valid)
  show ?thesis
    using parse_shape_get [OF out aiRecipeShape_distinct assms(2)] c r by (simp add: field_def)
qed

lemma nutrition_field:
  assumes "nutritionSchema_aiResponse x = Valid y" and "(k, p) \<in> set nutritionShape_aiResponse"
  shows "p (field x k) = Valid (field y k)"
proof -
  from assms(1) obtain data out where
    x: "x = JObj data" and y: "y = JObj out"
    and out: "parse_shape nutritionShape_aiResponse data = Valid out"
    by (auto simp: nutritionSchema_aiResponse_def z_object_Valid)
  show ?thesis
    using parse_shape_get [OF out nutritionShape_distinct assms(2)] x y by (simp add: field_def)
qed

lemma ai_defaults_top:
  assumes "validateAIRecipe c = Inr r"
  shows "field c ''subtitle'' = JUndefined \<Longrightarrow> field r ''subtitle'' = JStr []"
    and "field c ''tags'' = JUndefined \<Longrightarrow> field r ''tags'' = JArr []"
    and "field c ''cuisine'' = JUndefined \<Longrightarrow> field r ''cuisine'' = JStr ''International''"
    and "field c ''imageUrl'' = JUndefined \<Longrightarrow> field r ''imageUrl'' = JStr []"
    and "field c ''dressingIngredients'' = JUndefined \<Longrightarrow> field r ''dressingIngredients'' = JArr []"
    and "field c ''shoppingList'' = JUndefined \<Longrightarrow> field r ''shoppingList'' = JArr []"
    and "field c ''youtubeId'' = JUndefined \<Longrightarrow> field r ''youtubeId'' = JStr []"
    and "field c ''videoUrl'' = JUndefined \<Longrightarrow> field r ''videoUrl'' = JStr []"
    and "field c ''isGenerated'' = JUndefined \<Longrightarrow> field r ''isGenerated'' = JBool True"
  using ai_field [OF assms, of "''subtitle''" "z_default (JStr []) (z_optional (z_string []))"]
        ai_field [OF assms, of "''tags''" "z_default (JArr []) (z_array (z_string []) [])"]
        ai_field [OF assms, of "''cuisine''" "z_default (JStr ''International'') (z_string [])"]
        ai_field [OF assms, of "''imageUrl''" "z_default (JStr []) (z_string [])"]
        ai_field [OF assms, of "''dressingIngredients''"
                    "z_default (JArr []) (z_optional (z_array ingredientSchema_aiResponse []))"]
        ai_field [OF assms, of "''shoppingList''"
                    "z_default (JArr []) (z_array shoppingCategorySchema_aiResponse [])"]
        ai_field [OF assms, of "''youtubeId''" "z_default (JStr []) (z_optional (z_string []))"]
        ai_field [OF assms, of "''videoUrl''" "z_default (JStr []) (z_optional (z_string []))"]
        ai_field [OF assms, of "''isGenerated''" "z_default (JBool True) z_boolean"]
  by (simp_all add: aiRecipeShape_def zod_defs)

lemma ai_defaults_nutrition:
  assumes "validateAIRecipe c = Inr r"
  shows "field (field c ''nutrition'') ''sodium'' = JUndefined
           \<Longrightarrow> field (field r ''nutrition'') ''sodium'' = JStr ''0mg''"
    and "field (field c ''nutrition'') ''sugar'' = JUndefined
           \<Longrightarrow> field (field r ''nutrition'') ''sugar'' = JStr ''0g''"
    and "field (field c ''nutrition'') ''saturatedFat'' = JUndefined
           \<Longrightarrow> field (field r ''nutrition'') ''saturatedFat'' = JUndefined"
    and "field (field c ''nutrition'') ''cholesterol'' = JUndefined
           \<Longrightarrow> field (field r ''nutrition'') ''cholesterol'' = JUndefined"
proof -
  have n: "nutritionSchema_aiResponse (field c ''nutrition'') = Valid (field r ''nutrition'')"
    using ai_field [OF assms, of "''nutrition''" nutritionSchema_aiResponse]
    by (simp add: aiRecipeShape_def)
  show "field (field c ''nutrition'') ''sodium'' = JUndefined
           \<Longrightarrow> field (field r ''nutrition'') ''sodium'' = JStr ''0mg''"
    using nutrition_field [OF n, of "''sodium''" "z_default (JStr ''0mg'') (z_optional (z_string []))"]
    by (simp add: nutritionShape_aiResponse_def zod_defs)
  show "field (field c ''nutrition'') ''sugar'' = JUndefined
           \<Longrightarrow> field (field r ''nutrition'') ''sugar'' = JStr ''0g''"
    using nutrition_field [OF n, of "''sugar''" "z_default (JStr ''0g'') (z_optional (z_string []))"]
    by (simp add: nutritionShape_aiResponse_def zod_defs)
  show "field (field c ''nutrition'') ''saturatedFat'' = JUndefined
           \<Longrightarrow> field (field r ''nutrition'') ''saturatedFat'' = JUndefined"
    using nutrition_field [OF n, of "''saturatedFat''" "z_optional (z_string [])"]
    by (simp add: nutritionShape_aiResponse_def zod_defs)
  show "field (field c ''nutrition'') ''cholesterol'' = JUndefined
           \<Longrightarrow> field (field r ''nutrition'') ''cholesterol'' = JUndefined"
    using nutrition_field [OF n, of "''cholesterol''" "z_optional (z_string [])"]
    by (simp add: nutritionShape_aiResponse_def zod_defs)
qed

lemma minimal_recipe_ai_eval:
  "aiRecipeSchema (JObj minimal_recipe) = Valid (JObj minimal_recipe_ai)"
  by (simp add: minimal_recipe_def minimal_recipe_ai_def ai_defs zod_defs)

lemmas create_defs = createRecipeSchema_def createRecipeShape_def nutritionSchema_schemas_def
  ingredientSchema_schemas_def recipeStepSchema_schemas_def shoppingCategorySchema_schemas_def

lemma minimal_recipe_created_eval:
  "createRecipeSchema isURL (JObj minimal_recipe) = Valid (JObj minimal_recipe_created)"
  by (simp add: minimal_recipe_def minimal_recipe_created_def create_defs zod_defs
        trim_def isWhiteSpace_def)

text \<open>
  The candidate \<open>minimal_recipe\<close> is accepted; it does not specify the optional property
  \<open>nutrition.saturatedFat\<close>, and the validated recipe has none either: the property is
  left undefined.
\<close>

theorem aiRecipeSchema_optional_left_undefined:
  "validateAIRecipe (JObj minimal_recipe) = Inr (JObj minimal_recipe_ai)
   \<and> field (field (JObj minimal_recipe) ''nutrition'') ''saturatedFat'' = JUndefined
   \<and> field (field (JObj minimal_recipe_ai) ''nutrition'') ''saturatedFat'' = JUndefined"
  by (simp add: validateAIRecipe_Inr_iff minimal_recipe_ai_eval)
     (simp add: minimal_recipe_def minimal_recipe_ai_def)

text \<open>
  Claim C6, amended. In every accepted candidate, each optional property that the schema
  declares with a default and that the candidate leaves out holds that default in the
  validated recipe: \<open>subtitle\<close>, \<open>imageUrl\<close>, \<open>youtubeId\<close>, \<open>videoUrl\<close> the empty string,
  \<open>cuisine\<close> \<open>"International"\<close>, \<open>tags\<close>, \<open>dressingIngredients\<close>, \<open>shoppingList\<close> the empty
  array, \<open>isGenerated\<close> \<open>true\<close>, \<open>nutrition.sodium\<close> \<open>"0mg"\<close> and \<open>nutrition.sugar\<close> \<open>"0g"\<close>.
  An optional property declared without a default (\<open>nutrition.saturatedFat\<close>,
  \<open>nutrition.cholesterol\<close>) stays undefined when the candidate leaves it out.
\<close>

theorem aiRecipeSchema_declared_defaults:
  assumes "validateAIRecipe c = Inr r"
  shows "(field c ''subtitle'' = JUndefined \<longrightarrow> field r ''subtitle'' = JStr [])
     \<and> (field c ''tags'' = JUndefined \<longrightarrow> field r ''tags'' = JArr [])
     \<and> (field c ''cuisine'' = JUndefined \<longrightarrow> field r ''cuisine'' = JStr ''International'')
     \<and> (field c ''imageUrl'' = JUndefined \<longrightarrow> field r ''imageUrl'' = JStr [])
     \<and> (field c ''dressingIngredients'' = JUndefined \<longrightarrow> field r ''dressingIngredients'' = JArr [])
     \<and> (field c ''shoppingList'' = JUndefined \<longrightarrow> field r ''shoppingList'' = JArr [])
     \<and> (field c ''youtubeId'' = JUndefined \<longrightarrow> field r ''youtubeId'' = JStr [])
     \<and> (field c ''videoUrl'' = JUndefined \<longrightarrow> field r ''videoUrl'' = JStr [])
     \<and> (field c ''isGenerated'' = JUndefined \<longrightarrow> field r ''isGenerated'' = JBool True)
     \<and> (field (field c ''nutrition'') ''sodium'' = JUndefined
          \<longrightarrow> field (field r ''nutrition'') ''sodium'' = JStr ''0mg'')
     \<and> (field (field c ''nutrition'') ''sugar'' = JUndefined
          \<longrightarrow> field (field r ''nutrition'') ''sugar'' = JStr ''0g'')
     \<and> (field (field c ''nutrition'') ''saturatedFat'' = JUndefined
          \<longrightarrow> field (field r ''nutrition'') ''saturatedFat'' = JUndefined)
     \<and> (field (field c ''nutrition'') ''cholesterol'' = JUndefined
          \<longrightarrow> field (field r ''nutrition'') ''cholesterol'' = JUndefined)"
  using ai_defaults_top [OF assms] ai_defaults_nutrition [OF assms] by blast

theorem aiRecipeSchema_declared_defaults_witness:
  "validateAIRecipe (JObj minimal_recipe) = Inr (JObj minimal_recipe_ai)
   \<and> field (JObj minimal_recipe) ''subtitle'' = JUndefined
   \<and> field (JObj minimal_recipe_ai) ''subtitle'' = JStr []
   \<and> field (JObj minimal_recipe) ''isGenerated'' = JUndefined
   \<and> field (JObj minimal_recipe_ai) ''isGenerated'' = JBool True
   \<and> field (field (JObj minimal_recipe) ''nutrition'') ''sodium'' = JUndefined
   \<and> field (field (JObj minimal_recipe_ai) ''nutrition'') ''sodium'' = JStr ''0mg''"
proof -
  have v: "validateAIRecipe (JObj minimal_recipe) = Inr (JObj minimal_recipe_ai)"
    by (simp add: validateAIRecipe_Inr_iff minimal_recipe_ai_eval)
  have u: "field (JObj minimal_recipe) ''subtitle'' = JUndefined"
    "field (JObj minimal_recipe) ''isGenerated'' = JUndefined"
    "field (field (JObj minimal_recipe) ''nutrition'') ''sodium'' = JUndefined"
    by (simp_all add: minimal_recipe_def)
  show ?thesis
    using aiRecipeSchema_declared_defaults [OF v] v u by simp
qed

lemma accepts_object_iff:
  "accepts (z_object shape) x \<longleftrightarrow>
     (\<exists>data. x = JObj data \<and> (\<forall>(k, p) \<in> set shape. accepts p (obj_get data k)))"
proof (cases x)
  case (JObj data)
  have "z_object shape (JObj data) \<noteq> Invalid \<longleftrightarrow> parse_shape shape data \<noteq> Invalid"
    by (simp add: z_object_def split: parsed.splits)
  then show ?thesis
    using JObj parse_shape_valid_iff [of shape data] by (simp add: accepts_def)
qed (simp_all add: accepts_def z_object_def)

lemma accepts_object_mono:
  assumes "\<forall>(k, q) \<in> set shape'. \<exists>p. (k, p) \<in> set shape \<and> (\<forall>x. accepts p x \<longrightarrow> accepts q x)"
    and "accepts (z_object shape) x"
  shows "accepts (z_object shape') x"
  using assms unfolding accepts_object_iff by fastforce

lemma all_valid_iff: "all_valid rs \<noteq> Invalid \<longleftrightarrow> (\<forall>r \<in> set rs. r \<noteq> Invalid)"
  by (induction rs) (auto split: parsed.splits)

lemma accepts_array_iff:
  "accepts (z_array el cs) x \<longleftrightarrow>
     (\<exists>xs. x = JArr xs \<and> run_checks cs xs \<noteq> Invalid \<and> (\<forall>y \<in> set xs. accepts el y))"
proof (cases x)
  case (JArr xs)
  have "z_array el cs (JArr xs) \<noteq> Invalid \<longleftrightarrow>
      run_checks cs xs \<noteq> Invalid \<and> all_valid (map el xs) \<noteq> Invalid"
    by (simp add: z_array_def split: parsed.splits)
  then show ?thesis
    using JArr all_valid_iff [of "map el xs"] by (simp add: accepts_def)
qed (simp_all add: accepts_def z_array_def)

lemma accepts_array_mono:
  assumes "\<forall>x. accepts el x \<longrightarrow> accepts el' x" and "accepts (z_array el cs) x"
  shows "accepts (z_array el' cs) x"
  using assms unfolding accepts_array_iff by blast

lemma accepts_optional: "accepts (z_optional p) x \<longleftrightarrow> x = JUndefined \<or> accepts p x"
  by (simp add: accepts_def z_optional_def)

lemma accepts_default:
  "accepts (z_default d p) x \<longleftrightarrow> (if x = JUndefined then accepts p d else accepts p x)"
  by (simp add: accepts_def z_default_def)

lemma accepts_or: "accepts (z_or a b) x \<longleftrightarrow> accepts a x \<or> accepts b x"
  by (simp add: accepts_def z_or_def split: parsed.splits)

lemma accepts_string_nochecks: "accepts (z_string []) x \<longleftrightarrow> (\<exists>s. x = JStr s)"
  by (cases x) (simp_all add: accepts_def z_string_def)

lemma accepts_string_weaken: "accepts (z_string cs) x \<Longrightarrow> accepts (z_string []) x"
  by (cases x) (simp_all add: accepts_def z_string_def)

lemma accepts_literal: "accepts (z_literal v) x \<longleftrightarrow> x = v"
  by (simp add: accepts_def z_literal_def)

lemma nutrition_weaker: "accepts nutritionSchema_schemas x \<Longrightarrow> accepts nutritionSchema_aiResponse x"
  unfolding nutritionSchema_schemas_def nutritionSchema_aiResponse_def
  apply (erule accepts_object_mono [rotated])
  apply (simp add: nutritionShape_aiResponse_def accepts_optional accepts_default
      accepts_string_nochecks)
  done

lemma ingredient_same: "ingredientSchema_schemas = ingredientSchema_aiResponse"
  by (simp add: ingredientSchema_schemas_def ingredientSchema_aiResponse_def)

lemma shoppingCategory_same: "shoppingCategorySchema_schemas = shoppingCategorySchema_aiResponse"
  by (simp add: shoppingCategorySchema_schemas_def shoppingCategorySchema_aiResponse_def)

lemma url_or_empty_weaker:
  "accepts (z_or (z_optional (z_string [url_str isURL])) (z_literal (JStr []))) x
   \<Longrightarrow> x = JUndefined \<or> accepts (z_string []) x"
  by (auto simp: accepts_or accepts_optional accepts_literal accepts_string_nochecks
      dest: accepts_string_weaken)

lemma recipeStep_weaker:
  "accepts (recipeStepSchema_schemas isURL) x \<Longrightarrow> accepts recipeStepSchema_aiResponse x"
  unfolding recipeStepSchema_schemas_def recipeStepSchema_aiResponse_def
  apply (erule accepts_object_mono [rotated])
  apply (simp add: accepts_optional)
  using url_or_empty_weaker apply blast
  done

lemma title_weaker:
  "accepts (z_string [min_str 3, max_str 200, trim_str]) x
   \<Longrightarrow> accepts (z_string [min_str 3, max_str 200]) x"
  by (cases x) (auto simp: accepts_def z_string_def min_str_def max_str_def trim_str_def
      check_def split: parsed.splits if_splits)

lemma subtitle_weaker:
  "accepts (z_optional (z_string cs)) x
   \<Longrightarrow> accepts (z_default (JStr []) (z_optional (z_string []))) x"
  by (auto simp: accepts_optional accepts_default accepts_string_nochecks
      dest: accepts_string_weaken)

lemma cuisine_weaker:
  "accepts (z_optional (z_string [])) x
   \<Longrightarrow> accepts (z_default (JStr ''International'') (z_string [])) x"
  by (auto simp: accepts_optional accepts_default accepts_string_nochecks)

lemma imageUrl_weaker:
  "accepts (z_or (z_optional (z_string [url_str isURL])) (z_literal (JStr []))) x
   \<Longrightarrow> accepts (z_default (JStr []) (z_string [])) x"
  using url_or_empty_weaker [of isURL x]
  by (auto simp: accepts_default accepts_string_nochecks)

lemma videoUrl_weaker:
  "accepts (z_or (z_optional (z_string [url_str isURL])) (z_literal (JStr []))) x
   \<Longrightarrow> accepts (z_default (JStr []) (z_optional (z_string []))) x"
  using url_or_empty_weaker [of isURL x]
  by (auto simp: accepts_default accepts_optional accepts_string_nochecks)

lemma dressingIngredients_weaker:
  "accepts (z_optional (z_array el [])) x
   \<Longrightarrow> accepts (z_default (JArr []) (z_optional (z_array el []))) x"
  by (auto simp: accepts_optional accepts_default accepts_array_iff)

lemma steps_weaker:
  "accepts (z_array (recipeStepSchema_schemas isURL) cs) x
   \<Longrightarrow> accepts (z_array recipeStepSchema_aiResponse cs) x"
  using recipeStep_weaker by (auto intro: accepts_array_mono [rotated])

lemma isGenerated_weaker:
  "accepts (z_default (JBool False) z_boolean) x \<Longrightarrow> accepts (z_default (JBool True) z_boolean) x"
  by (cases x) (simp_all add: accepts_def z_default_def z_boolean_def)

lemma shape_weaker:
  "\<forall>(k, q) \<in> set aiRecipeShape.
     \<exists>p. (k, p) \<in> set (createRecipeShape isURL) \<and> (\<forall>x. accepts p x \<longrightarrow> accepts q x)"
  apply (simp add: aiRecipeShape_def createRecipeShape_def ingredient_same shoppingCategory_same)
  apply (blast intro: title_weaker subtitle_weaker cuisine_weaker imageUrl_weaker videoUrl_weaker
      dressingIngredients_weaker steps_weaker isGenerated_weaker nutrition_weaker)
  done

lemma create_accepted_then_ai:
  "accepts (createRecipeSchema isURL) c \<Longrightarrow> accepts aiRecipeSchema c"
  unfolding createRecipeSchema_def aiRecipeSchema_def
  using shape_weaker by (rule accepts_object_mono)

lemma accepts_string_url: "accepts (z_string [url_str isURL]) x \<longleftrightarrow> (\<exists>s. x = JStr s \<and> isURL s)"
  by (cases x) (simp_all add: accepts_def z_string_def url_str_def check_def)

lemma accepts_url_or_empty:
  "accepts (url_or_empty isURL) x \<longleftrightarrow>
     x = JUndefined \<or> x = JStr [] \<or> (\<exists>s. x = JStr s \<and> isURL s)"
  unfolding url_or_empty_def accepts_or accepts_optional accepts_literal accepts_string_url
  by blast

lemma title_stronger:
  "accepts (z_string [min_str 3, max_str 200]) x
   \<Longrightarrow> accepts (z_string [min_str 3, max_str 200, trim_str]) x"
  by (cases x) (auto simp: accepts_def z_string_def min_str_def max_str_def trim_str_def
      check_def split: parsed.splits if_splits)

lemma accepts_string_trim: "accepts (z_string [trim_str]) x \<longleftrightarrow> (\<exists>s. x = JStr s)"
  by (cases x) (simp_all add: accepts_def z_string_def trim_str_def)

lemma subtitle_stronger:
  "accepts (z_default (JStr []) (z_optional (z_string []))) x
   \<Longrightarrow> accepts (z_optional (z_string [trim_str])) x"
  by (auto simp: accepts_optional accepts_default accepts_string_nochecks accepts_string_trim
      split: if_splits)

lemma cuisine_stronger:
  "accepts (z_default (JStr ''International'') (z_string [])) x
   \<Longrightarrow> accepts (z_optional (z_string [])) x"
  by (auto simp: accepts_optional accepts_default split: if_splits)

lemma default_optional_stronger:
  "accepts (z_default d (z_optional p)) x \<Longrightarrow> accepts (z_optional p) x"
  by (auto simp: accepts_optional accepts_default split: if_splits)

lemma isGenerated_stronger:
  "accepts (z_default (JBool True) z_boolean) x \<Longrightarrow> accepts (z_default (JBool False) z_boolean) x"
  by (cases x) (simp_all add: accepts_def z_default_def z_boolean_def)

lemma nutrition_stronger:
  "accepts nutritionSchema_aiResponse x \<Longrightarrow> accepts nutritionSchema_schemas x"
  unfolding nutritionSchema_schemas_def nutritionSchema_aiResponse_def nutritionShape_aiResponse_def
  apply (erule accepts_object_mono [rotated])
  apply (simp add: accepts_optional accepts_default accepts_string_nochecks)
  done

lemma recipeStep_stronger:
  assumes "accepts recipeStepSchema_aiResponse y"
    and "accepts (url_or_empty isURL) (field y ''imageUrl'')"
  shows "accepts (recipeStepSchema_schemas isURL) y"
proof -
  from assms(1) obtain data where y: "y = JObj data"
    and ai: "\<forall>(k, p) \<in> set
        [(''number'', z_number [int_num, positive_num]),
         (''title'', z_string [min_str 1]),
         (''description'', z_string [min_str 1]),
         (''tip'', z_optional (z_string [])),
         (''duration'', z_optional (z_string [])),
         (''imageUrl'', z_optional (z_string []))]. accepts p (obj_get data k)"
    unfolding recipeStepSchema_aiResponse_def accepts_object_iff by blast
  have "accepts (url_or_empty isURL) (obj_get data ''imageUrl'')"
    using assms(2) y by simp
  then show ?thesis
    using ai unfolding recipeStepSchema_schemas_def accepts_object_iff y
    by (simp add: url_or_empty_def)
qed

lemma recipeStep_url:
  assumes "accepts (recipeStepSchema_schemas isURL) y"
  shows "accepts (url_or_empty isURL) (field y ''imageUrl'')"
  using assms unfolding recipeStepSchema_schemas_def accepts_object_iff
  by (auto simp: url_or_empty_def)

lemma create_fields:
  assumes "accepts (createRecipeSchema isURL) c"
  shows "accepts (url_or_empty isURL) (field c ''imageUrl'')"
    and "accepts (url_or_empty isURL) (field c ''videoUrl'')"
    and "accepts (z_array (recipeStepSchema_schemas isURL) [min_items 1]) (field c ''steps'')"
proof -
  from assms obtain data where c: "c = JObj data"
    and all: "\<forall>(k, p) \<in> set (createRecipeShape isURL). accepts p (obj_get data k)"
    unfolding createRecipeSchema_def accepts_object_iff by blast
  from all have
    "accepts (url_or_empty isURL) (obj_get data ''imageUrl'')
     \<and> accepts (url_or_empty isURL) (obj_get data ''videoUrl'')
     \<and> accepts (z_array (recipeStepSchema_schemas isURL) [min_items 1]) (obj_get data ''steps'')"
    by (simp add: createRecipeShape_def url_or_empty_def)
  then show "accepts (url_or_empty isURL) (field c ''imageUrl'')"
    and "accepts (url_or_empty isURL) (field c ''videoUrl'')"
    and "accepts (z_array (recipeStepSchema_schemas isURL) [min_items 1]) (field c ''steps'')"
    using c by simp_all
qed

lemma ai_then_create_accepted:
  assumes ai: "accepts aiRecipeSchema c"
    and image: "accepts (url_or_empty isURL) (field c ''imageUrl'')"
    and video: "accepts (url_or_empty isURL) (field c ''videoUrl'')"
    and steps: "\<forall>xs. field c ''steps'' = JArr xs \<longrightarrow>
                  (\<forall>x \<in> set xs. accepts (url_or_empty isURL) (field x ''imageUrl''))"
  shows "accepts (createRecipeSchema isURL) c"
proof -
  from ai obtain data where c: "c = JObj data"
    and all: "\<forall>(k, p) \<in> set aiRecipeShape. accepts p (obj_get data k)"
    unfolding aiRecipeSchema_def accepts_object_iff by blast
  have st: "accepts (z_array (recipeStepSchema_schemas isURL) [min_items 1]) (obj_get data ''steps'')"
  proof -
    have "accepts (z_array recipeStepSchema_aiResponse [min_items 1]) (obj_get data ''steps'')"
      using all by (simp add: aiRecipeShape_def)
    then obtain xs where xs: "obj_get data ''steps'' = JArr xs"
      and len: "run_checks [min_items 1] xs \<noteq> Invalid"
      and each: "\<forall>y \<in> set xs. accepts recipeStepSchema_aiResponse y"
      unfolding accepts_array_iff by blast
    have "field c ''steps'' = JArr xs" using xs c by simp
    then have "\<forall>y \<in> set xs. accepts (url_or_empty isURL) (field y ''imageUrl'')"
      using steps by blast
    then have "\<forall>y \<in> set xs. accepts (recipeStepSchema_schemas isURL) y"
      using each recipeStep_stronger by blast
    then show ?thesis unfolding accepts_array_iff using xs len by blast
  qed
  have im: "accepts (url_or_empty isURL) (obj_get data ''imageUrl'')"
    and vi: "accepts (url_or_empty isURL) (obj_get data ''videoUrl'')"
    using image video c by simp_all
  have any: "accepts (z_optional z_any) x" for x
    by (simp add: accepts_def z_optional_def z_any_def)
  have "\<forall>(k, p) \<in> set (createRecipeShape isURL). accepts p (obj_get data k)"
    using all st im vi any
    apply (simp add: aiRecipeShape_def createRecipeShape_def ingredient_same shoppingCategory_same
        url_or_empty_def [symmetric])
    apply (blast intro: title_stronger subtitle_stronger cuisine_stronger default_optional_stronger
          isGenerated_stronger nutrition_stronger)
    done
  then show ?thesis
    unfolding createRecipeSchema_def accepts_object_iff using c by blast
qed

lemma createRecipeShape_distinct: "distinct (map fst (createRecipeShape isURL))"
  by (simp add: createRecipeShape_def)

lemma create_field:
  assumes "createRecipeSchema isURL c = Valid r" and "(k, p) \<in> set (createRecipeShape isURL)"
  shows "p (field c k) = Valid (field r k)"
proof -
  from assms(1) obtain data out where
    c: "c = JObj data" and r: "r = JObj out"
    and out: "parse_shape (createRecipeShape isURL) data = Valid out"
    by (auto simp: createRecipeSchema_def z_object_Valid)
  show ?thesis
    using parse_shape_get [OF out createRecipeShape_distinct assms(2)] c r by simp
qed

lemma isGenerated_defaults_differ:
  assumes "createRecipeSchema isURL c = Valid r" and "aiRecipeSchema c = Valid r'"
    and "field c ''isGenerated'' = JUndefined"
  shows "field r ''isGenerated'' = JBool False \<and> field r' ''isGenerated'' = JBool True"
proof -
  have "z_default (JBool False) z_boolean (field c ''isGenerated'') = Valid (field r ''isGenerated'')"
    by (rule create_field [OF assms(1)]) (simp add: createRecipeShape_def)
  moreover have "validateAIRecipe c = Inr r'"
    using assms(2) by (simp add: validateAIRecipe_Inr_iff)
  then have "z_default (JBool True) z_boolean (field c ''isGenerated'') = Valid (field r' ''isGenerated'')"
    by (rule ai_field) (simp add: aiRecipeShape_def)
  ultimately show ?thesis
    using assms(3) by (simp add: z_default_def z_boolean_def)
qed

text \<open>
  Claim C3, amended. Authored recipes are validated by \<open>createRecipeSchema\<close>, a schema of
  its own and not \<open>aiRecipeSchema\<close>. Whatever the URL parser, a candidate is accepted for
  an authored recipe exactly when it is accepted as AI output and its \<open>imageUrl\<close>, its
  \<open>videoUrl\<close> and the \<open>imageUrl\<close> of each of its steps are absent, empty or a URL. The
  validated recipes are not the same: when the candidate leaves \<open>isGenerated\<close> out, the
  authored recipe gets \<open>false\<close> and the AI output \<open>true\<close>.
\<close>

theorem createRecipeSchema_versus_aiRecipeSchema:
  "(accepts (createRecipeSchema isURL) c \<longleftrightarrow>
      accepts aiRecipeSchema c
      \<and> accepts (url_or_empty isURL) (field c ''imageUrl'')
      \<and> accepts (url_or_empty isURL) (field c ''videoUrl'')
      \<and> (\<forall>xs. field c ''steps'' = JArr xs \<longrightarrow>
            (\<forall>x \<in> set xs. accepts (url_or_empty isURL) (field x ''imageUrl''))))
   \<and> (createRecipeSchema isURL c = Valid r \<and> aiRecipeSchema c = Valid r'
        \<and> field c ''isGenerated'' = JUndefined
      \<longrightarrow> field r ''isGenerated'' = JBool False \<and> field r' ''isGenerated'' = JBool True)"
proof -
  let ?urls = "accepts (url_or_empty isURL) (field c ''imageUrl'')
      \<and> accepts (url_or_empty isURL) (field c ''videoUrl'')
      \<and> (\<forall>xs. field c ''steps'' = JArr xs \<longrightarrow>
            (\<forall>x \<in> set xs. accepts (url_or_empty isURL) (field x ''imageUrl'')))"
  have 1: "accepts aiRecipeSchema c \<and> ?urls" if a: "accepts (createRecipeSchema isURL) c"
    using create_accepted_then_ai [OF a] create_fields [OF a]
    by (auto simp: accepts_array_iff intro: recipeStep_url)
  have 2: "accepts (createRecipeSchema isURL) c" if "accepts aiRecipeSchema c \<and> ?urls"
    using that ai_then_create_accepted [of c isURL] by blast
  have 3: "field r ''isGenerated'' = JBool False \<and> field r' ''isGenerated'' = JBool True"
    if "createRecipeSchema isURL c = Valid r \<and> aiRecipeSchema c = Valid r'
        \<and> field c ''isGenerated'' = JUndefined"
    using that isGenerated_defaults_differ [of isURL c r r'] by blast
  from 1 2 3 show ?thesis by blast
qed

theorem createRecipeSchema_versus_aiRecipeSchema_witness:
  "accepts (createRecipeSchema isURL_example) (JObj minimal_recipe)
   \<and> accepts aiRecipeSchema (JObj minimal_recipe)
   \<and> createRecipeSchema isURL_example (JObj minimal_recipe) = Valid (JObj minimal_recipe_created)
   \<and> aiRecipeSchema (JObj minimal_recipe) = Valid (JObj minimal_recipe_ai)
   \<and> field (JObj minimal_recipe) ''isGenerated'' = JUndefined
   \<and> field (JObj minimal_recipe_created) ''isGenerated'' = JBool False
   \<and> field (JObj minimal_recipe_ai) ''isGenerated'' = JBool True"
proof -
  have u: "field (JObj minimal_recipe) ''isGenerated'' = JUndefined"
    by (simp add: minimal_recipe_def)
  have a: "accepts (createRecipeSchema isURL_example) (JObj minimal_recipe)"
    by (simp add: accepts_def minimal_recipe_created_eval)
  show ?thesis
    using createRecipeSchema_versus_aiRecipeSchema
      [of isURL_example "JObj minimal_recipe" "JObj minimal_recipe_created" "JObj minimal_recipe_ai"]
      a u minimal_recipe_created_eval [of isURL_example] minimal_recipe_ai_eval
    by blast
qed

text \<open>
  Both schemas accept \<open>minimal_recipe\<close>, with different results: as AI output it gets
  \<open>isGenerated = true\<close> and an empty \<open>subtitle\<close>, as an authored recipe it gets
  \<open>isGenerated = false\<close> and no \<open>subtitle\<close>. And they do not accept the same candidates:
  with an \<open>imageUrl\<close> that is not a URL the recipe is still accepted as AI output and is
  rejected as an authored recipe.
\<close>

theorem validators_differ_on_minimal_recipe:
  "aiRecipeSchema (JObj minimal_recipe) = Valid (JObj minimal_recipe_ai)
   \<and> createRecipeSchema isURL_example (JObj minimal_recipe) = Valid (JObj minimal_recipe_created)
   \<and> field (JObj minimal_recipe_ai) ''isGenerated'' = JBool True
   \<and> field (JObj minimal_recipe_created) ''isGenerated'' = JBool False
   \<and> field (JObj minimal_recipe_ai) ''subtitle'' = JStr []
   \<and> field (JObj minimal_recipe_created) ''subtitle'' = JUndefined
   \<and> accepts aiRecipeSchema (JObj recipe_with_bad_imageUrl)
   \<and> \<not> accepts (createRecipeSchema isURL_example) (JObj recipe_with_bad_imageUrl)"
proof -
  have 1: "aiRecipeSchema (JObj minimal_recipe) = Valid (JObj minimal_recipe_ai)"
    by (rule minimal_recipe_ai_eval)
  have 2: "createRecipeSchema isURL_example (JObj minimal_recipe) = Valid (JObj minimal_recipe_created)"
    by (rule minimal_recipe_created_eval)
  have 3: "field (JObj minimal_recipe_ai) ''isGenerated'' = JBool True"
    "field (JObj minimal_recipe_created) ''isGenerated'' = JBool False"
    "field (JObj minimal_recipe_ai) ''subtitle'' = JStr []"
    "field (JObj minimal_recipe_created) ''subtitle'' = JUndefined"
    by (simp_all add: minimal_recipe_ai_def minimal_recipe_created_def)
  have 4: "accepts aiRecipeSchema (JObj recipe_with_bad_imageUrl)"
    by (simp add: accepts_def recipe_with_bad_imageUrl_def minimal_recipe_def ai_defs zod_defs)
  have 5: "\<not> accepts (createRecipeSchema isURL_example) (JObj recipe_with_bad_imageUrl)"
    by (simp add: accepts_def recipe_with_bad_imageUrl_def minimal_recipe_def create_defs zod_defs
        isURL_example_def startsWith_def trim_def isWhiteSpace_def)
  from 1 2 3 4 5 show ?thesis by blast
qed

section \<open>Properties of the extraction\<close>

lemmas json_eval = JSON_parse_def tokenize.simps cons_token_def isJsonSpace_def isDigit_def
  scan_number_def scan_int_def scan_frac_def scan_exp_def scale10_def startsWith_def digits_val_def
  digit_val_def begin_value_def cons_char_def

lemma trim_between:
  assumes "s \<noteq> []" "\<not> isWhiteSpace (hd s)" "\<not> isWhiteSpace (last s)"
    and "\<forall>c \<in> set pre. isWhiteSpace c" "\<forall>c \<in> set post. isWhiteSpace c"
  shows "trim (pre @ s @ post) = s"
proof -
  obtain a s' where s: "s = a # s'" using assms(1) by (cases s) auto
  have 1: "dropWhile isWhiteSpace (pre @ s @ post) = s @ post"
    using assms(2,4) s by (simp add: dropWhile_append2)
  have "rev s \<noteq> []" "hd (rev s) = last s" using assms(1) by (simp_all add: hd_rev)
  then obtain b t where t: "rev s = b # t" "\<not> isWhiteSpace b"
    using assms(3) by (cases "rev s") auto
  have "\<forall>c \<in> set (rev post). isWhiteSpace c" using assms(5) by simp
  then have "dropWhile isWhiteSpace (rev post @ b # t) = dropWhile isWhiteSpace (b # t)"
    using dropWhile_append2 [of "rev post" isWhiteSpace "b # t"] by blast
  then have 2: "dropWhile isWhiteSpace (rev post @ rev s) = rev s"
    using t by simp
  show ?thesis by (simp add: trim_def 1 2)
qed

lemma jsonText_json_fence:
  assumes "\<forall>c \<in> set pre. isWhiteSpace c" "\<forall>c \<in> set post. isWhiteSpace c"
  shows "jsonText (pre @ ''```json\<newline>'' @ inner @ ''\<newline>```'' @ post) = inner"
proof -
  let ?t = "''```json\<newline>'' @ inner @ ''\<newline>```''"
  have "trim (pre @ ?t @ post) = ?t"
    by (rule trim_between) (use assms in \<open>simp_all add: isWhiteSpace_def\<close>)
  then have "jsonText (pre @ ?t @ post) = inner"
    by (simp add: jsonText_def startsWith_def endsWith_def strip_prefix_def strip_suffix_def)
  then show ?thesis by simp
qed

lemma jsonText_plain_fence:
  assumes "\<forall>c \<in> set pre. isWhiteSpace c" "\<forall>c \<in> set post. isWhiteSpace c"
  shows "jsonText (pre @ ''```\<newline>'' @ inner @ ''\<newline>```'' @ post) = inner"
proof -
  let ?t = "''```\<newline>'' @ inner @ ''\<newline>```''"
  have "trim (pre @ ?t @ post) = ?t"
    by (rule trim_between) (use assms in \<open>simp_all add: isWhiteSpace_def\<close>)
  then have "jsonText (pre @ ?t @ post) = inner"
    by (simp add: jsonText_def startsWith_def endsWith_def strip_prefix_def strip_suffix_def)
  then show ?thesis by simp
qed

text \<open>
  The two fences that are unwrapped. For every text that is, between optional surrounding
  whitespace, an opening fence \<open>```json\<close> or \<open>```\<close> followed by a line feed, some inner
  content, a line feed and the closing fence \<open>```\<close>, both fences are stripped, the inner
  content is kept verbatim, and the extraction returns exactly what parsing the inner
  content returns.
\<close>

theorem extract_json_fenced:
  assumes "\<forall>c \<in> set pre. isWhiteSpace c" and "\<forall>c \<in> set post. isWhiteSpace c"
    and "fence = ''```json'' \<or> fence = ''```''"
  shows "jsonText (pre @ fence @ ''\<newline>'' @ inner @ ''\<newline>```'' @ post) = inner
     \<and> extract_json (pre @ fence @ ''\<newline>'' @ inner @ ''\<newline>```'' @ post) =
         (case JSON_parse inner of
            None \<Rightarrow> Inl (Error ''AI returned invalid JSON format'')
          | Some v \<Rightarrow> Inr v)"
proof -
  have "jsonText (pre @ fence @ ''\<newline>'' @ inner @ ''\<newline>```'' @ post) = inner"
    using assms(3) jsonText_json_fence [OF assms(1,2), of inner]
      jsonText_plain_fence [OF assms(1,2), of inner]
    by auto
  then show ?thesis by (simp add: extract_json_def)
qed

theorem extract_json_fenced_witness:
  \<open>jsonText ''```json\<newline>{"a":1}\<newline>```'' = ''{"a":1}''
   \<and> extract_json ''```json\<newline>{"a":1}\<newline>```'' = Inr (JObj [(''a'', JNum 1)])
   \<and> JSON_parse ''{"a":1}'' = Some (JObj [(''a'', JNum 1)])\<close>
proof -
  have p: \<open>JSON_parse ''{"a":1}'' = Some (JObj [(''a'', JNum 1)])\<close>
    by (simp add: json_eval)
  show ?thesis
    using extract_json_fenced [of "[]" "[]" "''```json''" \<open>''{"a":1}''\<close>] p by simp
qed

text \<open>
  Claim C5 fails on the code. A block fenced with another language tag, here
  \<open>javascript\<close>, enters the branch for \<open>```\<close>; the pattern for the opening fence wants
  the line feed right after the three backticks and does not match, so only the closing
  fence is removed. \<open>JSON.parse\<close> then sees the opening fence and fails, although the
  inner content parses.
\<close>

theorem extract_json_other_language_tag:
  \<open>jsonText ''```javascript\<newline>{"a":1}\<newline>```'' = ''```javascript\<newline>{"a":1}''
   \<and> extract_json ''```javascript\<newline>{"a":1}\<newline>```'' = Inl (Error ''AI returned invalid JSON format'')
   \<and> JSON_parse ''{"a":1}'' = Some (JObj [(''a'', JNum 1)])\<close>
  by (simp add: extract_json_def jsonText_def trim_def isWhiteSpace_def strip_prefix_def
      strip_suffix_def endsWith_def json_eval)

section \<open>Properties of the generation endpoint\<close>

lemma initializeGemini_ready:
  assumes "k \<noteq> []" and "genAI g = None \<or> model g \<noteq> None"
  shows "\<exists>m g'. initializeGemini (Some k) g = Inr (Some m, g') \<and> genAI g' \<noteq> None
           \<and> model g' = Some m \<and> (genAI g \<noteq> None \<longrightarrow> g' = g)"
  using assms by (auto simp: initializeGemini_def new_object_def Let_def)

lemma generateRecipe_ready:
  assumes "provider_ready w"
  shows "\<exists>w1. generateRecipe provider params w =
            (case provider (length (prompts_sent w)) (buildRecipePrompt params) of
               Throws is_SyntaxError message \<Rightarrow>
                 Inl (Error (if is_SyntaxError then ''AI returned invalid JSON format''
                             else ''Recipe generation failed: '' @ message))
             | Responds text \<Rightarrow> extract_json text, w1)
         \<and> provider_ready w1
         \<and> prompts_sent w1 = prompts_sent w @ [buildRecipePrompt params]
         \<and> generateRecipe_calls w1 = generateRecipe_calls w + 1
         \<and> slept_ms w1 = slept_ms w \<and> created w1 = created w"
proof -
  from assms obtain k where k: "env_GEMINI_API_KEY w = Some k" "k \<noteq> []"
    and g: "genAI (gemini w) = None \<or> model (gemini w) \<noteq> None"
    by (auto simp: provider_ready_def split: option.splits)
  obtain m g' where init: "initializeGemini (Some k) (gemini w) = Inr (Some m, g')"
    and g': "genAI g' \<noteq> None" "model g' = Some m"
    using initializeGemini_ready [OF k(2) g] by blast
  show ?thesis
    using k init g'
    by (cases "provider (length (prompts_sent w)) (buildRecipePrompt params)")
       (simp_all add: generateRecipe_def Let_def provider_ready_def)
qed

lemma generateRecipe_missing_key:
  assumes "env_GEMINI_API_KEY w = None"
  shows "generateRecipe provider params w =
           (Inl (Error ''GEMINI_API_KEY environment variable is required''),
            w\<lparr>generateRecipe_calls := generateRecipe_calls w + 1\<rparr>)"
  using assms by (simp add: generateRecipe_def initializeGemini_def Let_def)

lemma retry_loop_first_failure:
  assumes "generateRecipe provider params w = (Inl e, w1)"
  shows "retry_loop provider params 0 w =
           retry_loop provider params 1 (w1\<lparr>slept_ms := slept_ms w1 + 1000\<rparr>)"
  using assms by (simp add: retry_loop.simps [of _ _ 0] maxRetries_def)

lemma retry_loop_second_failure:
  assumes "generateRecipe provider params w = (Inl e, w1)"
  shows "retry_loop provider params 1 w =
           (Return (error_response 500 ''AI_VALIDATION_FAILED''
                      ''AI generated invalid recipe format after retries''), w1)"
  using assms by (simp add: retry_loop.simps [of _ _ "Suc 0"] maxRetries_def)

lemma extract_json_Inl_iff:
  "extract_json text = Inl e \<longleftrightarrow>
     e = Error ''AI returned invalid JSON format'' \<and> JSON_parse (jsonText text) = None"
  by (auto simp: extract_json_def split: option.splits)

text \<open>
  A text whose top level is not an object, a bare number or a bare string, parses: the
  extraction returns the number or the string and does not fail.
\<close>

theorem extract_json_bare_number:
  \<open>extract_json ''42'' = Inr (JNum 42) \<and> extract_json ''"soup"'' = Inr (JStr ''soup'')\<close>
  by (simp add: extract_json_def jsonText_def trim_def isWhiteSpace_def json_eval)

text \<open>
  Claim C4, amended. The extraction fails exactly when \<open>JSON.parse\<close> throws on the
  unwrapped text, which it does for malformed or truncated text but not for a well-formed
  text whose top level is not an object; the error is always
  \<open>AI returned invalid JSON format\<close>. The failure is retried: when the provider is
  reachable and its first text does not parse, \<open>generateRecipe\<close> throws that error and
  the loop waits a second and goes on to its second attempt.
\<close>

theorem extract_json_invalid_format:
  "(extract_json text = Inl (Error ''AI returned invalid JSON format'')
      \<longleftrightarrow> JSON_parse (jsonText text) = None)
   \<and> (\<forall>e. extract_json text = Inl e \<longrightarrow> e = Error ''AI returned invalid JSON format'')
   \<and> (provider_ready w
        \<and> provider (length (prompts_sent w)) (buildRecipePrompt params) = Responds text
        \<and> JSON_parse (jsonText text) = None
      \<longrightarrow> (\<exists>w1. generateRecipe provider params w =
                   (Inl (Error ''AI returned invalid JSON format''), w1)
               \<and> retry_loop provider params 0 w =
                   retry_loop provider params 1 (w1\<lparr>slept_ms := slept_ms w1 + 1000\<rparr>)))"
proof (intro conjI allI impI)
  show "extract_json text = Inl (Error ''AI returned invalid JSON format'')
      \<longleftrightarrow> JSON_parse (jsonText text) = None"
    by (simp add: extract_json_Inl_iff)
next
  fix e assume "extract_json text = Inl e"
  then show "e = Error ''AI returned invalid JSON format''"
    by (simp add: extract_json_Inl_iff)
next
  assume a: "provider_ready w
        \<and> provider (length (prompts_sent w)) (buildRecipePrompt params) = Responds text
        \<and> JSON_parse (jsonText text) = None"
  then have x: "extract_json text = Inl (Error ''AI returned invalid JSON format'')"
    by (simp add: extract_json_Inl_iff)
  from a obtain w1 where
    w1: "generateRecipe provider params w = (Inl (Error ''AI returned invalid JSON format''), w1)"
    using generateRecipe_ready [of w provider params] x by auto
  then show "\<exists>w1. generateRecipe provider params w =
                   (Inl (Error ''AI returned invalid JSON format''), w1)
               \<and> retry_loop provider params 0 w =
                   retry_loop provider params 1 (w1\<lparr>slept_ms := slept_ms w1 + 1000\<rparr>)"
    using retry_loop_first_failure [OF w1] by blast
qed

lemma not_json_at_all: "JSON_parse (jsonText ''not json at all'') = None"
  by (simp add: jsonText_def trim_def isWhiteSpace_def json_eval)

lemma world_init_ready: "k \<noteq> [] \<Longrightarrow> provider_ready (world_init (Some k))"
  by (simp add: provider_ready_def world_init_def module_init_def)

theorem extract_json_invalid_format_witness:
  "extract_json ''not json at all'' = Inl (Error ''AI returned invalid JSON format'')
   \<and> (\<exists>w1. generateRecipe (\<lambda>n prompt. Responds ''not json at all'') params_peanuts
               (world_init (Some ''test-key'')) =
             (Inl (Error ''AI returned invalid JSON format''), w1)
          \<and> retry_loop (\<lambda>n prompt. Responds ''not json at all'') params_peanuts 0
               (world_init (Some ''test-key'')) =
             retry_loop (\<lambda>n prompt. Responds ''not json at all'') params_peanuts 1
               (w1\<lparr>slept_ms := slept_ms w1 + 1000\<rparr>))"
proof -
  note t = extract_json_invalid_format
    [of "''not json at all''" "world_init (Some ''test-key'')"
        "\<lambda>n prompt. Responds ''not json at all''" params_peanuts]
  have ready: "provider_ready (world_init (Some ''test-key''))"
    by (rule world_init_ready) simp
  from t not_json_at_all
  have 1: "extract_json ''not json at all'' = Inl (Error ''AI returned invalid JSON format'')"
    by blast
  from t ready not_json_at_all
  have 2: "\<exists>w1. generateRecipe (\<lambda>n prompt. Responds ''not json at all'') params_peanuts
               (world_init (Some ''test-key'')) =
             (Inl (Error ''AI returned invalid JSON format''), w1)
          \<and> retry_loop (\<lambda>n prompt. Responds ''not json at all'') params_peanuts 0
               (world_init (Some ''test-key'')) =
             retry_loop (\<lambda>n prompt. Responds ''not json at all'') params_peanuts 1
               (w1\<lparr>slept_ms := slept_ms w1 + 1000\<rparr>)"
    by blast
  from 1 2 show ?thesis by (rule conjI)
qed

lemma provider_ready_slept:
  "provider_ready (w\<lparr>slept_ms := n\<rparr>) = provider_ready w"
  by (simp add: provider_ready_def)

lemma generateRecipe_invalid_text:
  assumes "provider_ready w"
    and "\<forall>n prompt. \<exists>text. provider n prompt = Responds text \<and> JSON_parse (jsonText text) = None"
  shows "\<exists>w1. generateRecipe provider params w =
                 (Inl (Error ''AI returned invalid JSON format''), w1)
         \<and> provider_ready w1
         \<and> prompts_sent w1 = prompts_sent w @ [buildRecipePrompt params]
         \<and> generateRecipe_calls w1 = generateRecipe_calls w + 1
         \<and> slept_ms w1 = slept_ms w \<and> created w1 = created w"
proof -
  obtain reply where t: "provider (length (prompts_sent w)) (buildRecipePrompt params) = Responds reply"
    and p: "JSON_parse (jsonText reply) = None"
    using assms(2) by blast
  have "extract_json reply = Inl (Error ''AI returned invalid JSON format'')"
    using p by (simp add: extract_json_Inl_iff)
  then show ?thesis
    using generateRecipe_ready [OF assms(1), of provider params] t by simp
qed

text \<open>
  Claim C2. When the provider is reachable and every text it returns fails to parse, the
  endpoint calls the provider exactly twice, with the same prompt, waits once for one
  second in between, and answers with the single response \<open>500 AI_VALIDATION_FAILED\<close>;
  there is no third call and nothing is stored.
\<close>

theorem generate_handler_retries_exhausted:
  assumes "provider_ready w"
    and "\<forall>n prompt. \<exists>text. provider n prompt = Responds text \<and> JSON_parse (jsonText text) = None"
  shows "\<exists>w'. generate_handler provider create params userId w =
                 (error_response 500 ''AI_VALIDATION_FAILED''
                    ''AI generated invalid recipe format after retries'', w')
         \<and> prompts_sent w' = prompts_sent w @ [buildRecipePrompt params, buildRecipePrompt params]
         \<and> generateRecipe_calls w' = generateRecipe_calls w + 2
         \<and> slept_ms w' = slept_ms w + 1000
         \<and> created w' = created w"
proof -
  obtain w1 where 1: "generateRecipe provider params w =
                 (Inl (Error ''AI returned invalid JSON format''), w1)"
    and r1: "provider_ready w1"
    and e1: "prompts_sent w1 = prompts_sent w @ [buildRecipePrompt params]"
      "generateRecipe_calls w1 = generateRecipe_calls w + 1"
      "slept_ms w1 = slept_ms w" "created w1 = created w"
    using generateRecipe_invalid_text [OF assms, of params] by blast
  let ?w1 = "w1\<lparr>slept_ms := slept_ms w1 + 1000\<rparr>"
  have "provider_ready ?w1" using r1 by (simp add: provider_ready_slept)
  then obtain w2 where 2: "generateRecipe provider params ?w1 =
                 (Inl (Error ''AI returned invalid JSON format''), w2)"
    and e2: "prompts_sent w2 = prompts_sent ?w1 @ [buildRecipePrompt params]"
      "generateRecipe_calls w2 = generateRecipe_calls ?w1 + 1"
      "slept_ms w2 = slept_ms ?w1" "created w2 = created ?w1"
    using generateRecipe_invalid_text [OF _ assms(2), of ?w1 params] by blast
  have "retry_loop provider params 0 w =
      (Return (error_response 500 ''AI_VALIDATION_FAILED''
                 ''AI generated invalid recipe format after retries''), w2)"
    using retry_loop_first_failure [OF 1] retry_loop_second_failure [OF 2] by simp
  then have "generate_handler provider create params userId w =
      (error_response 500 ''AI_VALIDATION_FAILED''
         ''AI generated invalid recipe format after retries'', w2)"
    by (simp add: generate_handler_def)
  then show ?thesis using e1 e2 by simp
qed

theorem generate_handler_retries_exhausted_witness:
  "\<exists>w'. generate_handler (\<lambda>n prompt. Responds ''not json at all'') create_example
            params_peanuts ''user-1'' (world_init (Some ''test-key'')) =
           (error_response 500 ''AI_VALIDATION_FAILED''
              ''AI generated invalid recipe format after retries'', w')
         \<and> prompts_sent w' = [buildRecipePrompt params_peanuts, buildRecipePrompt params_peanuts]
         \<and> generateRecipe_calls w' = 2
         \<and> slept_ms w' = 1000
         \<and> created w' = []"
proof -
  have ready: "provider_ready (world_init (Some ''test-key''))"
    by (rule world_init_ready) simp
  have invalid: "\<forall>n prompt. \<exists>text.
      (\<lambda>n prompt. Responds ''not json at all'') n prompt = Responds text
      \<and> JSON_parse (jsonText text) = None"
    using not_json_at_all by simp
  show ?thesis
    using generate_handler_retries_exhausted
      [OF ready invalid, of create_example params_peanuts "''user-1''"]
    by (simp add: world_init_def numeral_2_eq_2)
qed

text \<open>
  Claim C1 fails on the code. With \<open>GEMINI_API_KEY\<close> unset, \<open>generateRecipe\<close> throws on
  its first call; the \<open>catch\<close> inside the loop takes that error for a validation failure,
  waits a second and calls \<open>generateRecipe\<close> again, and the endpoint answers
  \<open>500 AI_VALIDATION_FAILED\<close> after two attempts. The provider itself is never called.
  The branch of the outer \<open>catch\<close> that answers \<open>503 AI_SERVICE_UNAVAILABLE\<close> is not
  reached.
\<close>

theorem generate_handler_missing_key:
  "generate_handler provider create params userId (world_init None) =
     (error_response 500 ''AI_VALIDATION_FAILED''
        ''AI generated invalid recipe format after retries'',
      (world_init None)\<lparr>generateRecipe_calls := 2, slept_ms := 1000\<rparr>)"
proof -
  let ?w1 = "(world_init None)\<lparr>generateRecipe_calls := 1\<rparr>"
  have 1: "generateRecipe provider params (world_init None) =
      (Inl (Error ''GEMINI_API_KEY environment variable is required''), ?w1)"
    using generateRecipe_missing_key [of "world_init None" provider params]
    by (simp add: world_init_def)
  let ?w2 = "?w1\<lparr>slept_ms := slept_ms ?w1 + 1000\<rparr>"
  have 2: "generateRecipe provider params ?w2 =
      (Inl (Error ''GEMINI_API_KEY environment variable is required''),
       (world_init None)\<lparr>generateRecipe_calls := 2, slept_ms := 1000\<rparr>)"
    using generateRecipe_missing_key [of ?w2 provider params]
    by (simp add: world_init_def)
  show ?thesis
    using retry_loop_first_failure [OF 1] retry_loop_second_failure [OF 2]
    by (simp add: generate_handler_def)
qed

lemma generateRecipe_created:
  "generateRecipe provider params w = (r, w1) \<Longrightarrow> created w1 = created w"
  by (auto simp: generateRecipe_def Let_def
      split: sum.splits option.splits provider_outcome.splits prod.splits if_splits)

lemma retry_loop_created:
  "retry_loop provider params n w = (r, w') \<Longrightarrow> created w' = created w"
proof (induction provider params n w arbitrary: r w' rule: retry_loop.induct)
  case (1 provider params retryCount w)
  obtain raw w1 where g: "generateRecipe provider params w = (raw, w1)"
    by (cases "generateRecipe provider params w")
  have c1: "created w1 = created w" using generateRecipe_created [OF g] .
  define validated where
    "validated = (case raw of Inl e \<Rightarrow> Inl e | Inr x \<Rightarrow> validateAIRecipe x)"
  show ?case
  proof (cases "retryCount < maxRetries")
    case False
    then show ?thesis
      using "1.prems" by (simp add: retry_loop.simps [of provider params retryCount w])
  next
    case True
    show ?thesis
    proof (cases validated)
      case (Inr data)
      then show ?thesis
        using "1.prems" True g c1
        by (simp add: retry_loop.simps [of provider params retryCount w] validated_def)
    next
      case (Inl err)
      show ?thesis
      proof (cases "retryCount + 1 \<ge> maxRetries")
        case True
        then show ?thesis
          using "1.prems" \<open>retryCount < maxRetries\<close> g c1 Inl
          by (simp add: retry_loop.simps [of provider params retryCount w] validated_def)
      next
        case False
        have "retry_loop provider params (retryCount + 1) (w1\<lparr>slept_ms := slept_ms w1 + 1000\<rparr>)
            = (r, w')"
          using "1.prems" \<open>retryCount < maxRetries\<close> g Inl False
          by (simp add: retry_loop.simps [of provider params retryCount w] validated_def)
        then have "created w' = created (w1\<lparr>slept_ms := slept_ms w1 + 1000\<rparr>)"
          using "1.IH" [OF \<open>retryCount < maxRetries\<close> g [symmetric] refl _ _ False]
            Inl validated_def by simp
        then show ?thesis using c1 by simp
      qed
    qed
  qed
qed

lemma retry_loop_Return_status:
  "retry_loop provider params n w = (Return response, w') \<Longrightarrow> status response = 500"
proof (induction provider params n w arbitrary: w' rule: retry_loop.induct)
  case (1 provider params retryCount w)
  obtain raw w1 where g: "generateRecipe provider params w = (raw, w1)"
    by (cases "generateRecipe provider params w")
  define validated where
    "validated = (case raw of Inl e \<Rightarrow> Inl e | Inr x \<Rightarrow> validateAIRecipe x)"
  show ?case
  proof (cases "retryCount < maxRetries")
    case False
    then show ?thesis
      using "1.prems" by (simp add: retry_loop.simps [of provider params retryCount w])
  next
    case True
    show ?thesis
    proof (cases validated)
      case (Inr data)
      then show ?thesis
        using "1.prems" True g
        by (simp add: retry_loop.simps [of provider params retryCount w] validated_def)
    next
      case (Inl err)
      show ?thesis
      proof (cases "retryCount + 1 \<ge> maxRetries")
        case True
        then show ?thesis
          using "1.prems" \<open>retryCount < maxRetries\<close> g Inl
          by (auto simp: retry_loop.simps [of provider params retryCount w] validated_def
              error_response_def)
      next
        case False
        have "retry_loop provider params (retryCount + 1) (w1\<lparr>slept_ms := slept_ms w1 + 1000\<rparr>)
            = (Return response, w')"
          using "1.prems" \<open>retryCount < maxRetries\<close> g Inl False
          by (simp add: retry_loop.simps [of provider params retryCount w] validated_def)
        then show ?thesis
          using "1.IH" [OF \<open>retryCount < maxRetries\<close> g [symmetric] refl _ _ False]
            Inl validated_def by simp
      qed
    qed
  qed
qed

lemma generation_error_response_status:
  "status (generation_error_response message) \<noteq> 201"
  by (simp add: generation_error_response_def error_response_def)

lemma recipeData_of_fields:
  "field (recipeData_of aiRecipeData userId params) ''isGenerated'' = JBool True"
  "field (recipeData_of aiRecipeData userId params) ''userId'' = JStr userId"
  "field (recipeData_of aiRecipeData userId params) ''generationParams'' = params_value params"
  by (simp_all add: recipeData_of_def obj_get_obj_set)

lemma retry_loop_first_success:
  assumes "generateRecipe provider params w = (Inr candidate, w1)"
    and "validateAIRecipe candidate = Inr aiRecipeData"
  shows "retry_loop provider params 0 w = (Break aiRecipeData, w1)"
  using assms by (simp add: retry_loop.simps [of _ _ 0] maxRetries_def)

text \<open>
  Claim C9. Whenever the endpoint answers \<open>201\<close>, exactly one document was handed to
  \<open>Recipe.create\<close>, the response carries what \<open>Recipe.create\<close> returned for it, and the
  document is the validated recipe with \<open>isGenerated\<close> set to \<open>true\<close>, \<open>userId\<close> to the
  caller's uid and \<open>generationParams\<close> to the request parameters, whatever the provider's
  text said about these three properties; the recipe in the response has these values
  wherever persistence keeps them. And the endpoint does answer \<open>201\<close> with that document:
  when the provider is reachable, its first text parses and validates, and
  \<open>Recipe.create\<close> succeeds on the document.
\<close>

theorem generate_handler_success_fields:
  "(generate_handler provider create params userId w = (response, w') \<and> status response = 201
    \<longrightarrow> (\<exists>aiRecipeData savedRecipe recipe_id.
           created w' = created w @ [recipeData_of aiRecipeData userId params]
         \<and> create (recipeData_of aiRecipeData userId params) = Inr (savedRecipe, recipe_id)
         \<and> response = generated_response savedRecipe recipe_id
         \<and> field (recipeData_of aiRecipeData userId params) ''isGenerated'' = JBool True
         \<and> field (recipeData_of aiRecipeData userId params) ''userId'' = JStr userId
         \<and> field (recipeData_of aiRecipeData userId params) ''generationParams''
             = params_value params
         \<and> (keeps create ''isGenerated'' (JBool True)
              \<longrightarrow> field savedRecipe ''isGenerated'' = JBool True)
         \<and> (keeps create ''userId'' (JStr userId)
              \<longrightarrow> field savedRecipe ''userId'' = JStr userId)
         \<and> (keeps create ''generationParams'' (params_value params)
              \<longrightarrow> field savedRecipe ''generationParams'' = params_value params)))
   \<and> (provider_ready w
        \<and> provider (length (prompts_sent w)) (buildRecipePrompt params) = Responds reply
        \<and> extract_json reply = Inr candidate
        \<and> validateAIRecipe candidate = Inr validated
        \<and> create (recipeData_of validated userId params) = Inr (saved, saved_id)
    \<longrightarrow> (\<exists>w1. generate_handler provider create params userId w
                  = (generated_response saved saved_id, w1)
              \<and> status (generated_response saved saved_id) = 201
              \<and> created w1 = created w @ [recipeData_of validated userId params]
              \<and> prompts_sent w1 = prompts_sent w @ [buildRecipePrompt params]))"
proof (rule conjI; rule impI)
  assume a: "generate_handler provider create params userId w = (response, w')
      \<and> status response = 201"
  obtain ex w1 where loop: "retry_loop provider params 0 w = (ex, w1)"
    by (cases "retry_loop provider params 0 w")
  have c1: "created w1 = created w" using retry_loop_created [OF loop] .
  show "\<exists>aiRecipeData savedRecipe recipe_id.
           created w' = created w @ [recipeData_of aiRecipeData userId params]
         \<and> create (recipeData_of aiRecipeData userId params) = Inr (savedRecipe, recipe_id)
         \<and> response = generated_response savedRecipe recipe_id
         \<and> field (recipeData_of aiRecipeData userId params) ''isGenerated'' = JBool True
         \<and> field (recipeData_of aiRecipeData userId params) ''userId'' = JStr userId
         \<and> field (recipeData_of aiRecipeData userId params) ''generationParams''
             = params_value params
         \<and> (keeps create ''isGenerated'' (JBool True)
              \<longrightarrow> field savedRecipe ''isGenerated'' = JBool True)
         \<and> (keeps create ''userId'' (JStr userId)
              \<longrightarrow> field savedRecipe ''userId'' = JStr userId)
         \<and> (keeps create ''generationParams'' (params_value params)
              \<longrightarrow> field savedRecipe ''generationParams'' = params_value params)"
  proof (cases ex)
    case (Return resp)
    then have "response = resp" using a loop by (simp add: generate_handler_def)
    then show ?thesis
      using retry_loop_Return_status [of provider params 0 w resp w1] loop Return a
      by simp
  next
    case (Break aiRecipeData)
    let ?d = "recipeData_of aiRecipeData userId params"
    show ?thesis
    proof (cases "create ?d")
      case (Inl message)
      then have "response = generation_error_response message"
        using a loop Break by (simp add: generate_handler_def Let_def)
      then show ?thesis
        using generation_error_response_status [of message] a by simp
    next
      case (Inr sv)
      obtain savedRecipe recipe_id where s: "sv = (savedRecipe, recipe_id)" by (cases sv)
      have r: "response = generated_response savedRecipe recipe_id"
        and c: "created w' = created w @ [?d]"
        using a loop Break Inr s c1 by (auto simp: generate_handler_def Let_def)
      have cr: "create ?d = Inr (savedRecipe, recipe_id)" using Inr s by simp
      have k: "keeps create k v \<Longrightarrow> field ?d k = v \<Longrightarrow> field savedRecipe k = v" for k v
        using cr unfolding keeps_def by blast
      show ?thesis
        using r c cr recipeData_of_fields [of aiRecipeData userId params]
          k [of "''isGenerated''" "JBool True"] k [of "''userId''" "JStr userId"]
          k [of "''generationParams''" "params_value params"]
        by blast
    qed
  qed
next
  assume b: "provider_ready w
        \<and> provider (length (prompts_sent w)) (buildRecipePrompt params) = Responds reply
        \<and> extract_json reply = Inr candidate
        \<and> validateAIRecipe candidate = Inr validated
        \<and> create (recipeData_of validated userId params) = Inr (saved, saved_id)"
  then obtain w1 where g: "generateRecipe provider params w = (Inr candidate, w1)"
    and p: "prompts_sent w1 = prompts_sent w @ [buildRecipePrompt params]"
    and c: "created w1 = created w"
    using generateRecipe_ready [of w provider params] by auto
  have loop: "retry_loop provider params 0 w = (Break validated, w1)"
    using retry_loop_first_success [OF g] b by blast
  let ?w = "w1\<lparr>created := created w1 @ [recipeData_of validated userId params]\<rparr>"
  have "generate_handler provider create params userId w
      = (generated_response saved saved_id, ?w)"
    using loop b by (simp add: generate_handler_def Let_def)
  moreover have "status (generated_response saved saved_id) = 201"
    by (simp add: generated_response_def)
  moreover have "created ?w = created w @ [recipeData_of validated userId params]"
    "prompts_sent ?w = prompts_sent w @ [buildRecipePrompt params]"
    using p c by simp_all
  ultimately show "\<exists>w1. generate_handler provider create params userId w
                  = (generated_response saved saved_id, w1)
              \<and> status (generated_response saved saved_id) = 201
              \<and> created w1 = created w @ [recipeData_of validated userId params]
              \<and> prompts_sent w1 = prompts_sent w @ [buildRecipePrompt params]"
    by blast
qed

lemma minimal_recipe_text_extract:
  "extract_json minimal_recipe_text = Inr (JObj minimal_recipe_candidate)"
  by code_simp

lemma minimal_recipe_candidate_validate:
  "validateAIRecipe (JObj minimal_recipe_candidate) = Inr (JObj minimal_recipe_validated)"
  by code_simp

lemma minimal_recipeData_eval:
  "recipeData_of (JObj minimal_recipe_validated) ''user-1'' params_peanuts = JObj minimal_recipeData"
  by code_simp

lemma handler_example_run:
  "generate_handler (\<lambda>n prompt. Responds minimal_recipe_text) create_example
          params_peanuts ''user-1'' (world_init (Some ''test-key''))
   = (generated_response (JObj minimal_recipeData) ''507f1f77bcf86cd799439011'',
      world_after_example)"
  by code_simp

theorem generate_handler_success_fields_witness:
  "generate_handler (\<lambda>n prompt. Responds minimal_recipe_text) create_example
          params_peanuts ''user-1'' (world_init (Some ''test-key''))
     = (generated_response (JObj minimal_recipeData) ''507f1f77bcf86cd799439011'',
        world_after_example)
   \<and> status (generated_response (JObj minimal_recipeData) ''507f1f77bcf86cd799439011'') = 201
   \<and> created world_after_example = [JObj minimal_recipeData]
   \<and> extract_json minimal_recipe_text = Inr (JObj minimal_recipe_candidate)
   \<and> field (JObj minimal_recipe_candidate) ''isGenerated'' = JBool False
   \<and> field (JObj minimal_recipe_candidate) ''userId'' = JStr ''mallory''
   \<and> field (JObj minimal_recipeData) ''isGenerated'' = JBool True
   \<and> field (JObj minimal_recipeData) ''userId'' = JStr ''user-1''
   \<and> field (JObj minimal_recipeData) ''generationParams'' = params_value params_peanuts"
proof -
  let ?provider = "\<lambda>(n::nat) (prompt::string). Responds minimal_recipe_text"
  let ?w = "world_init (Some ''test-key'')"
  let ?id = "''507f1f77bcf86cd799439011''"
  note t = generate_handler_success_fields
    [of ?provider create_example params_peanuts "''user-1''" ?w
        "generated_response (JObj minimal_recipeData) ?id" world_after_example
        minimal_recipe_text "JObj minimal_recipe_candidate" "JObj minimal_recipe_validated"
        "JObj minimal_recipeData" ?id]
  have ready: "provider_ready ?w" by (rule world_init_ready) simp
  have cr: "create_example (recipeData_of (JObj minimal_recipe_validated) ''user-1'' params_peanuts)
      = Inr (JObj minimal_recipeData, ?id)"
    by (simp add: create_example_def minimal_recipeData_eval)
  have st: "status (generated_response (JObj minimal_recipeData) ?id) = 201"
    by (simp add: generated_response_def)
  have w0: "created ?w = []" by (simp add: world_init_def)
  from t ready minimal_recipe_text_extract minimal_recipe_candidate_validate cr
  obtain w1 where run: "generate_handler ?provider create_example params_peanuts ''user-1'' ?w
      = (generated_response (JObj minimal_recipeData) ?id, w1)"
    and cw: "created w1 = created ?w @ [recipeData_of (JObj minimal_recipe_validated) ''user-1'' params_peanuts]"
    by blast
  have w1: "w1 = world_after_example" using run handler_example_run by simp
  from t handler_example_run st
  obtain d where d: "created world_after_example = created ?w @ [recipeData_of d ''user-1'' params_peanuts]"
    and f: "field (recipeData_of d ''user-1'' params_peanuts) ''isGenerated'' = JBool True"
      "field (recipeData_of d ''user-1'' params_peanuts) ''userId'' = JStr ''user-1''"
      "field (recipeData_of d ''user-1'' params_peanuts) ''generationParams''
         = params_value params_peanuts"
    by blast
  have c: "created world_after_example = [JObj minimal_recipeData]"
    using cw w1 w0 minimal_recipeData_eval by simp
  then have e: "recipeData_of d ''user-1'' params_peanuts = JObj minimal_recipeData"
    using d w0 by simp
  have cand: "field (JObj minimal_recipe_candidate) ''isGenerated'' = JBool False"
    "field (JObj minimal_recipe_candidate) ''userId'' = JStr ''mallory''"
    by (simp_all add: minimal_recipe_candidate_def minimal_recipe_def)
  show ?thesis
    using handler_example_run st c minimal_recipe_text_extract cand f [unfolded e] by blast
qed

end
